theory Spec2Isabelle
  imports Main "HOL-Library.AList"
begin

section \<open>Values, result rows and predicates\<close>

text \<open>
  Values are the constants of the query language. The code reads a value through
  \<^verbatim>\<open>equals\<close> (structural equality), \<^verbatim>\<open>isArray\<close>, \<^verbatim>\<open>value\<close> (the elements of an array)
  and \<^verbatim>\<open>toJS()\<close>.
\<close>

datatype val =
    VBoolean bool
  | VString string
  | VNumber int
  | VArray "val list"

fun isArray :: "val \<Rightarrow> bool" where
  "isArray (VArray vs) = True"
| "isArray v = False"

fun elements :: "val \<Rightarrow> val list" where
  "elements (VArray vs) = vs"
| "elements v = []"

text \<open>
  Modelled from the spec: \<^verbatim>\<open>a.toJS() === b.toJS()\<close> of the value library, which is not
  among the sources. The spec calls it "underlying scalar equality": two scalars are the
  same when their contents are; the conversion of an array builds a fresh object each
  time, and two fresh objects are never strictly equal.
\<close>

fun toJS_same :: "val \<Rightarrow> val \<Rightarrow> bool" where
  "toJS_same (VArray xs) w = False"
| "toJS_same v (VArray ys) = False"
| "toJS_same v w = (v = w)"

text \<open>
  A result row: \<^verbatim>\<open>result.value\<close> is a dictionary from field names to values; a field
  that was not returned reads as \<^verbatim>\<open>undefined\<close>, which is \<open>None\<close> here.
\<close>

record result =
  "value" :: "string \<rightharpoonup> val"

text \<open>
  The boolean expressions of a filter. \<open>External\<close> is a predicate over another
  query (its function name and its own filter); \<open>Compute\<close> is a predicate over a
  derived value and is opaque to every function below.
\<close>

datatype booleanExpression =
    TrueB
  | FalseB
  | DontCare string
  | Atom string string val
  | NotB booleanExpression
  | And "booleanExpression list"
  | Or "booleanExpression list"
  | External string booleanExpression
  | Compute string

subsection \<open>isFilterCompatibleWithResult\<close>

fun isFilterCompatibleWithResult :: "result \<Rightarrow> booleanExpression \<Rightarrow> bool" where
  "isFilterCompatibleWithResult topResult TrueB = True"
| "isFilterCompatibleWithResult topResult (DontCare name) = True"
| "isFilterCompatibleWithResult topResult FalseB = False"
| "isFilterCompatibleWithResult topResult (And operands) =
     list_all (isFilterCompatibleWithResult topResult) operands"
| "isFilterCompatibleWithResult topResult (Or operands) =
     list_ex (isFilterCompatibleWithResult topResult) operands"
| "isFilterCompatibleWithResult topResult (NotB expr) =
     (\<not> isFilterCompatibleWithResult topResult expr)"
| "isFilterCompatibleWithResult topResult (External fn sub) = True"
| "isFilterCompatibleWithResult topResult (Compute c) = True"
| "isFilterCompatibleWithResult topResult (Atom name operator v) =
     (case value topResult name of
        None \<Rightarrow> False
      | Some resultValue \<Rightarrow>
          if operator = ''=='' \<or> operator = ''=~'' then toJS_same resultValue v
          else True)"

subsection \<open>getParamsInFilter and setsIntersect\<close>

text \<open>
  A JavaScript \<^verbatim>\<open>Set\<close> keeps its elements in insertion order, without duplicates:
  a duplicate-free list, where \<^verbatim>\<open>add\<close> appends an element that is not there yet.
\<close>

definition set_add :: "'a \<Rightarrow> 'a list \<Rightarrow> 'a list" where
  "set_add x s = (if x \<in> set s then s else s @ [x])"

text \<open>
  The visitor of \<^verbatim>\<open>getParamsInFilter\<close>: the traversal enters the operands of
  \<open>And\<close>, \<open>Or\<close> and \<open>Not\<close> (the default methods of the visitor return true), records the
  name of every \<open>Atom\<close> and \<open>DontCare\<close>, and does not enter an \<open>External\<close>
  (\<^verbatim>\<open>visitExternalBooleanExpression\<close> returns false). \<open>params\<close> is the set the visitor
  closes over.
\<close>

fun getParamsInFilter_visit :: "booleanExpression \<Rightarrow> string list \<Rightarrow> string list" where
  "getParamsInFilter_visit (Atom name operator v) params = set_add name params"
| "getParamsInFilter_visit (DontCare name) params = set_add name params"
| "getParamsInFilter_visit (External fn sub) params = params"
| "getParamsInFilter_visit (NotB expr) params = getParamsInFilter_visit expr params"
| "getParamsInFilter_visit (And operands) params = fold getParamsInFilter_visit operands params"
| "getParamsInFilter_visit (Or operands) params = fold getParamsInFilter_visit operands params"
| "getParamsInFilter_visit TrueB params = params"
| "getParamsInFilter_visit FalseB params = params"
| "getParamsInFilter_visit (Compute c) params = params"

definition getParamsInFilter :: "booleanExpression \<Rightarrow> string list" where
  "getParamsInFilter f = getParamsInFilter_visit f []"

fun setsIntersect :: "'a list \<Rightarrow> 'a list \<Rightarrow> bool" where
  "setsIntersect [] s2 = False"
| "setsIntersect (el # s1) s2 = (if el \<in> set s2 then True else setsIntersect s1 s2)"

subsection \<open>neutralizeIDFilter\<close>

fun neutralizeIDFilter :: "booleanExpression \<Rightarrow> booleanExpression" where
  "neutralizeIDFilter (NotB expr) = NotB (neutralizeIDFilter expr)"
| "neutralizeIDFilter (Or operands) = Or (map neutralizeIDFilter operands)"
| "neutralizeIDFilter (And operands) = And (map neutralizeIDFilter operands)"
| "neutralizeIDFilter TrueB = TrueB"
| "neutralizeIDFilter (DontCare name) = DontCare name"
| "neutralizeIDFilter FalseB = FalseB"
| "neutralizeIDFilter (Compute c) = Compute c"
| "neutralizeIDFilter (External fn sub) = External fn sub"
| "neutralizeIDFilter (Atom name operator v) =
     (if name = ''id'' \<and> operator = ''=='' then TrueB else Atom name operator v)"

text \<open>
  The fields a predicate constrains, as a set: the names of its \<open>Atom\<close> and
  \<open>DontCare\<close> clauses at any depth below \<open>Not\<close>, \<open>And\<close> and \<open>Or\<close>. The fields
  inside an \<open>External\<close> belong to another query.
\<close>

fun constrainedFields :: "booleanExpression \<Rightarrow> string set" where
  "constrainedFields (Atom name operator v) = {name}"
| "constrainedFields (DontCare name) = {name}"
| "constrainedFields (NotB expr) = constrainedFields expr"
| "constrainedFields (And operands) = (\<Union>op \<in> set operands. constrainedFields op)"
| "constrainedFields (Or operands) = (\<Union>op \<in> set operands. constrainedFields op)"
| "constrainedFields f = {}"

text \<open>
  The spec's words for identity neutralization, as a definition of their own, to be
  compared with \<open>neutralizeIDFilter\<close>: "structural copy where every \<open>Atom(id, ==, _)\<close>
  becomes \<open>True\<close>; recurses through \<open>Not\<close>/\<open>And\<close>/\<open>Or\<close>; leaves
  \<open>True\<close>/\<open>False\<close>/\<open>DontCare\<close>/\<open>Compute\<close>/\<open>External\<close> unchanged". \<open>mapAtoms g\<close>
  is the structural copy that puts \<open>g name operator v\<close> in the place of every atom it
  reaches through \<open>Not\<close>, \<open>And\<close> and \<open>Or\<close>.
\<close>

fun mapAtoms :: "(string \<Rightarrow> string \<Rightarrow> val \<Rightarrow> booleanExpression) \<Rightarrow> booleanExpression
    \<Rightarrow> booleanExpression" where
  "mapAtoms g (Atom name operator v) = g name operator v"
| "mapAtoms g (NotB expr) = NotB (mapAtoms g expr)"
| "mapAtoms g (And operands) = And (map (mapAtoms g) operands)"
| "mapAtoms g (Or operands) = Or (map (mapAtoms g) operands)"
| "mapAtoms g f = f"

definition neutralizeIdentity :: "booleanExpression \<Rightarrow> booleanExpression" where
  "neutralizeIdentity f =
     mapAtoms (\<lambda>name operator v. if (name, operator) = (''id'', ''=='') then TrueB
                                   else Atom name operator v) f"

subsection \<open>Simplification\<close>

text \<open>
  The code simplifies a predicate with the \<^verbatim>\<open>optimize()\<close> method of the expression
  library, which is not among the sources. Every function below that calls it takes the
  simplifier as its first argument \<open>opt\<close>, so what is proved of the function holds for
  any simplifier.
\<close>

text \<open>
  Modelled from the spec: \<^verbatim>\<open>optimize()\<close> is missing; \<open>optimize\<close> (with its helpers
  \<open>andOperands\<close>, \<open>orOperands\<close> and \<open>rebuild\<close>) is the simplifier at which the
  functions are evaluated on concrete predicates. The spec says of it that after
  simplification \<open>And\<close> and \<open>Or\<close> are flattened (no direct nesting of the same kind)
  and absorb \<open>True\<close> and \<open>False\<close>.
\<close>

fun andOperands :: "booleanExpression \<Rightarrow> booleanExpression list" where
  "andOperands (And operands) = operands"
| "andOperands f = [f]"

fun orOperands :: "booleanExpression \<Rightarrow> booleanExpression list" where
  "orOperands (Or operands) = operands"
| "orOperands f = [f]"

fun rebuild :: "(booleanExpression list \<Rightarrow> booleanExpression) \<Rightarrow> booleanExpression
    \<Rightarrow> booleanExpression list \<Rightarrow> booleanExpression" where
  "rebuild mk unit [] = unit"
| "rebuild mk unit [op] = op"
| "rebuild mk unit ops = mk ops"

fun optimize :: "booleanExpression \<Rightarrow> booleanExpression" where
  "optimize (And operands) =
     (let ops = filter (\<lambda>op. op \<noteq> TrueB) (concat (map (\<lambda>op. andOperands (optimize op)) operands))
      in if FalseB \<in> set ops then FalseB else rebuild And TrueB ops)"
| "optimize (Or operands) =
     (let ops = filter (\<lambda>op. op \<noteq> FalseB) (concat (map (\<lambda>op. orOperands (optimize op)) operands))
      in if TrueB \<in> set ops then TrueB else rebuild Or FalseB ops)"
| "optimize (NotB expr) = NotB (optimize expr)"
| "optimize f = f"

text \<open>
  A second simplifier, to show what a simplifier that keeps the meaning of a predicate
  may still do: \<open>mergeEqualities\<close> writes the disjunction of two equalities on one
  field as one \<open>in_array\<close> atom on that field.
\<close>

fun mergeEqualities :: "booleanExpression \<Rightarrow> booleanExpression" where
  "mergeEqualities (Or [Atom name1 operator1 v1, Atom name2 operator2 v2]) =
     (if name1 = name2 \<and> operator1 = ''=='' \<and> operator2 = ''==''
      then Atom name1 ''in_array'' (VArray [v1, v2])
      else Or [Atom name1 operator1 v1, Atom name2 operator2 v2])"
| "mergeEqualities (Or operands) = Or (map mergeEqualities operands)"
| "mergeEqualities (And operands) = And (map mergeEqualities operands)"
| "mergeEqualities (NotB expr) = NotB (mergeEqualities expr)"
| "mergeEqualities f = f"

subsection \<open>refineFilterToAnswerQuestion\<close>

text \<open>A strategy returns the refined predicate, or \<open>None\<close> for \<^verbatim>\<open>null\<close> (rejection).\<close>

definition refineFilterToAnswerQuestion ::
  "(booleanExpression \<Rightarrow> booleanExpression) \<Rightarrow> booleanExpression \<Rightarrow> booleanExpression
     \<Rightarrow> booleanExpression option" where
  "refineFilterToAnswerQuestion opt ctxFilter refinedFilter =
     (if setsIntersect (getParamsInFilter ctxFilter) (getParamsInFilter refinedFilter) then None
      else let clone = neutralizeIDFilter ctxFilter
           in Some (opt (And [clone, refinedFilter])))"

subsection \<open>Errors\<close>

text \<open>
  The three ways a function of the code ends without a value: the
  \<^verbatim>\<open>throw new Error('NOT IMPLEMENTED')\<close> of the attachment search, a property read
  on \<^verbatim>\<open>null\<close>, and a failed \<^verbatim>\<open>assert\<close>. A function that can raise returns
  \<open>error + 'a\<close>; \<^verbatim>\<open>null\<close> is \<open>None\<close>.
\<close>

datatype error = NotImplemented | TypeError | AssertionError

subsection \<open>filterToSlots and filterToNegatedSlots\<close>

text \<open>
  \<^verbatim>\<open>slots\<close> is a plain JavaScript object (\<^verbatim>\<open>slots = {}\<close>) used as a dictionary from
  field names to clauses.
  \<^item> Its own properties are an association list in insertion order; assigning to a name
    that is there replaces its clause in place (\<open>AList.update\<close>).
  \<^item> Reading \<^verbatim>\<open>slots[key]\<close> for a name the dictionary does not own goes on to
    \<^verbatim>\<open>Object.prototype\<close>: for each of its member names (\<open>objectPrototypeNames\<close>) the
    read yields the inherited member, which is truthy and is not a clause. For any other
    name it yields \<^verbatim>\<open>undefined\<close>.
  \<^item> Assigning to \<^verbatim>\<open>slots['__proto__']\<close> stores nothing: it makes the clause the
    prototype of the dictionary. What such a dictionary yields for a name it does not own,
    and which names \<^verbatim>\<open>for ... in\<close> lists for it, depends on the properties of the
    clause objects of the expression library, which is not among the sources.
    \<open>Reparented\<close> is a dictionary to which that has happened.
\<close>

definition objectPrototypeNames :: "string list" where
  "objectPrototypeNames =
     [''constructor'', ''__defineGetter__'', ''__defineSetter__'', ''hasOwnProperty'',
      ''__lookupGetter__'', ''__lookupSetter__'', ''isPrototypeOf'', ''propertyIsEnumerable'',
      ''toString'', ''valueOf'', ''__proto__'', ''toLocaleString'']"

type_synonym ownProperties = "(string \<times> booleanExpression) list"

datatype slots = Slots ownProperties | Reparented

fun assignSlot :: "string \<Rightarrow> booleanExpression \<Rightarrow> slots \<Rightarrow> slots" where
  "assignSlot key clause (Slots own) =
     (if key = ''__proto__'' then Reparented else Slots (AList.update key clause own))"
| "assignSlot key clause Reparented = Reparented"

datatype property = Own booleanExpression | Inherited

definition getProperty :: "ownProperties \<Rightarrow> string \<Rightarrow> property option" where
  "getProperty own key =
     (case map_of own key of
        Some clause \<Rightarrow> Some (Own clause)
      | None \<Rightarrow> if key \<in> set objectPrototypeNames then Some Inherited else None)"

definition topOperands :: "booleanExpression \<Rightarrow> booleanExpression list" where
  "topOperands f = (case f of And operands \<Rightarrow> operands | _ \<Rightarrow> [f])"

fun negatedSlot :: "booleanExpression \<Rightarrow> slots \<Rightarrow> slots" where
  "negatedSlot (NotB (Atom name operator v)) slots = assignSlot name (NotB (Atom name operator v)) slots"
| "negatedSlot (NotB (DontCare name)) slots = assignSlot name (NotB (DontCare name)) slots"
| "negatedSlot operand slots = slots"

definition filterToNegatedSlots :: "(booleanExpression \<Rightarrow> booleanExpression) \<Rightarrow> booleanExpression \<Rightarrow> slots" where
  "filterToNegatedSlots opt f = fold negatedSlot (topOperands (opt f)) (Slots [])"

fun positiveSlot :: "booleanExpression \<Rightarrow> slots \<Rightarrow> slots" where
  "positiveSlot (Atom name operator v) slots = assignSlot name (Atom name operator v) slots"
| "positiveSlot (DontCare name) slots = assignSlot name (DontCare name) slots"
| "positiveSlot operand slots = slots"

definition filterToSlots :: "(booleanExpression \<Rightarrow> booleanExpression) \<Rightarrow> booleanExpression \<Rightarrow> slots" where
  "filterToSlots opt f = fold positiveSlot (topOperands (opt f)) (Slots [])"

subsection \<open>refineFilterToAnswerQuestionOrChangeFilter\<close>

fun isDontCare :: "booleanExpression \<Rightarrow> bool" where
  "isDontCare (DontCare name) = True"
| "isDontCare f = False"

fun isAtom :: "booleanExpression \<Rightarrow> bool" where
  "isAtom (Atom name operator v) = True"
| "isAtom f = False"

text \<open>
  The loop over the keys of \<^verbatim>\<open>ctxSlots\<close>, with the loop variable \<^verbatim>\<open>changedParam\<close>
  as an argument. The keys that \<^verbatim>\<open>for ... in\<close> lists are the own properties (the
  members of \<^verbatim>\<open>Object.prototype\<close> are not enumerable), so \<^verbatim>\<open>ctxSlots[key]\<close> is the
  clause stored under the key. \<open>Inr None\<close> is the \<^verbatim>\<open>return null\<close> inside the loop;
  \<open>Inr (Some c)\<close> is the loop running to its end with \<^verbatim>\<open>changedParam = c\<close>.
  \<^verbatim>\<open>refinedSlots[key].equals\<close> is \<^verbatim>\<open>undefined\<close> when \<^verbatim>\<open>refinedSlots[key]\<close> is an
  inherited member, and calling it raises a \<^verbatim>\<open>TypeError\<close>. The loop is written over
  the own properties in insertion order; \<^verbatim>\<open>for ... in\<close> lists the keys that are array
  indices before the others, which does not change what the strategy returns (lemma
  \<open>changedParamLoop_order\<close>).
\<close>

fun changedParamLoop ::
  "ownProperties \<Rightarrow> ownProperties \<Rightarrow> ownProperties \<Rightarrow> string option \<Rightarrow> error + string option option" where
  "changedParamLoop [] refinedSlots negatedRefinedSlots changedParam = Inr (Some changedParam)"
| "changedParamLoop ((key, ctxSlot) # rest) refinedSlots negatedRefinedSlots changedParam =
     (if \<not> (isAtom ctxSlot \<or> isDontCare ctxSlot) then Inl AssertionError
      else if getProperty negatedRefinedSlots key \<noteq> None then Inr None
      else case getProperty refinedSlots key of
             None \<Rightarrow> changedParamLoop rest refinedSlots negatedRefinedSlots changedParam
           | Some refinedSlot \<Rightarrow>
               if isDontCare ctxSlot then Inr None
               else (case refinedSlot of
                       Inherited \<Rightarrow> Inl TypeError
                     | Own clause \<Rightarrow>
                         if clause = ctxSlot then Inr None
                         else if changedParam \<noteq> None then Inr None
                         else changedParamLoop rest refinedSlots negatedRefinedSlots (Some key)))"

fun newCtxClauses :: "ownProperties \<Rightarrow> booleanExpression list \<Rightarrow> booleanExpression list" where
  "newCtxClauses refinedSlots [] = []"
| "newCtxClauses refinedSlots (Atom name operator v # clauses) =
     (if getProperty refinedSlots name \<noteq> None then newCtxClauses refinedSlots clauses
      else neutralizeIDFilter (Atom name operator v) # newCtxClauses refinedSlots clauses)"
| "newCtxClauses refinedSlots (DontCare name # clauses) =
     (if getProperty refinedSlots name \<noteq> None then newCtxClauses refinedSlots clauses
      else neutralizeIDFilter (DontCare name) # newCtxClauses refinedSlots clauses)"
| "newCtxClauses refinedSlots (clause # clauses) =
     neutralizeIDFilter clause # newCtxClauses refinedSlots clauses"

text \<open>
  The strategy. It can raise, so it returns \<open>error + booleanExpression option\<close>. When one
  of its three dictionaries has been reparented, what it does is not determined by the
  sources; the argument \<open>reparented\<close> stands for it.
\<close>

definition refineFilterToAnswerQuestionOrChangeFilter ::
  "(booleanExpression \<Rightarrow> booleanExpression)
     \<Rightarrow> (booleanExpression \<Rightarrow> booleanExpression \<Rightarrow> error + booleanExpression option)
     \<Rightarrow> booleanExpression \<Rightarrow> booleanExpression \<Rightarrow> error + booleanExpression option" where
  "refineFilterToAnswerQuestionOrChangeFilter opt reparented ctxFilter0 refinedFilter0 =
     (let ctxFilter = opt ctxFilter0;
          refinedFilter = opt refinedFilter0
      in case (filterToSlots opt ctxFilter, filterToSlots opt refinedFilter,
               filterToNegatedSlots opt refinedFilter) of
           (Slots ctxSlots, Slots refinedSlots, Slots negatedRefinedSlots) \<Rightarrow>
             (case changedParamLoop ctxSlots refinedSlots negatedRefinedSlots None of
                Inl e \<Rightarrow> Inl e
              | Inr None \<Rightarrow> Inr None
              | Inr (Some changedParam) \<Rightarrow>
                  Inr (Some (opt (And (newCtxClauses refinedSlots (topOperands ctxFilter)
                                       @ [refinedFilter])))))
         | _ \<Rightarrow> reparented ctxFilter0 refinedFilter0)"

subsection \<open>filterUsesParam\<close>

text \<open>
  Modelled from the spec: \<^verbatim>\<open>C.filterUsesParam\<close> is a helper of this repository that is
  not among the sources. By the spec it tells whether the predicate constrains the field:
  whether an \<open>Atom\<close> or \<open>DontCare\<close> clause of it, outside any \<open>External\<close>, has that name.
\<close>

fun filterUsesParam :: "booleanExpression \<Rightarrow> string \<Rightarrow> bool" where
  "filterUsesParam (Atom name operator v) pname = (pname = name)"
| "filterUsesParam (DontCare name) pname = (pname = name)"
| "filterUsesParam (NotB expr) pname = filterUsesParam expr pname"
| "filterUsesParam (And operands) pname = list_ex (\<lambda>op. filterUsesParam op pname) operands"
| "filterUsesParam (Or operands) pname = list_ex (\<lambda>op. filterUsesParam op pname) operands"
| "filterUsesParam f pname = False"

subsection \<open>Shapes of predicates\<close>

text \<open>
  \<open>idAtomsPositive pos f\<close>: no \<open>id ==\<close> atom of \<open>f\<close> lies under an odd number of
  negations (\<open>pos\<close> is the polarity at which \<open>f\<close> itself stands, \<open>True\<close> at the top).
\<close>

fun idAtomsPositive :: "bool \<Rightarrow> booleanExpression \<Rightarrow> bool" where
  "idAtomsPositive pos (Atom name operator v) = (pos \<or> \<not> (name = ''id'' \<and> operator = ''==''))"
| "idAtomsPositive pos (NotB expr) = idAtomsPositive (\<not> pos) expr"
| "idAtomsPositive pos (And operands) = list_all (idAtomsPositive pos) operands"
| "idAtomsPositive pos (Or operands) = list_all (idAtomsPositive pos) operands"
| "idAtomsPositive pos f = True"

text \<open>
  The clauses of a list of top-level clauses, said without the dictionaries.
  \<open>clauseField c\<close> is the field of \<open>c\<close> when \<open>c\<close> is an \<open>Atom\<close> or a \<open>DontCare\<close>;
  \<open>negatedField c\<close> is the field of \<open>c\<close> when \<open>c\<close> is the negation of an \<open>Atom\<close> or
  of a \<open>DontCare\<close>. \<open>lastOn fieldOf key clauses\<close> is the last clause of the list whose
  field, by \<open>fieldOf\<close>, is \<open>key\<close>.
\<close>

fun clauseField :: "booleanExpression \<Rightarrow> string option" where
  "clauseField (Atom name operator v) = Some name"
| "clauseField (DontCare name) = Some name"
| "clauseField f = None"

fun negatedField :: "booleanExpression \<Rightarrow> string option" where
  "negatedField (NotB expr) = clauseField expr"
| "negatedField f = None"

fun lastOn :: "(booleanExpression \<Rightarrow> string option) \<Rightarrow> string \<Rightarrow> booleanExpression list
    \<Rightarrow> booleanExpression option" where
  "lastOn fieldOf key [] = None"
| "lastOn fieldOf key (clause # clauses) =
     (case lastOn fieldOf key clauses of
        Some later \<Rightarrow> Some later
      | None \<Rightarrow> if fieldOf clause = Some key then Some clause else None)"

text \<open>
  The strategy simplifies a predicate and hands the result to \<open>filterToSlots\<close> or
  \<open>filterToNegatedSlots\<close>, which simplify it once more: \<open>slotClauses opt f\<close> are the
  top-level clauses that the dictionaries of \<open>f\<close> are made from.
\<close>

definition slotClauses :: "(booleanExpression \<Rightarrow> booleanExpression) \<Rightarrow> booleanExpression
    \<Rightarrow> booleanExpression list" where
  "slotClauses opt f = topOperands (opt (opt f))"

section \<open>Query refinement\<close>

record invocation =
  selector :: string
  channel :: string
  in_params :: "(string \<times> val) list"

text \<open>
  The query expressions. Only the parts the code below reads are kept: the child table,
  the predicate of a \<open>Filter\<close>, the field list of a \<open>Projection\<close>. The schema that
  each node carries is not read by any function modelled here.
\<close>

datatype table =
    Invocation invocation
  | Filter table booleanExpression
  | Projection table "string list"
  | Sort table string
  | Index table
  | Slice table
  | ComputeT table string
  | Alias table string
  | Join table table
  | Aggregation table string
  | VarRef string
  | ResultRef string
  | Sequence
  | History
  | Window
  | TimeSeries

subsection \<open>findOrMakeFilterTable\<close>

text \<open>
  The loop of \<^verbatim>\<open>findOrMakeFilterTable\<close> walks down from the root and remembers the
  parent of the current node in \<^verbatim>\<open>holder\<close>. When it makes up a filter it assigns it
  to the field of the holder it came through and returns the root, which now contains
  the new node. Here the walk is a recursion, and \<open>inHolder\<close> puts the table that comes
  back from below into the holder again. The result is the pair
  \<^verbatim>\<open>[root, filterTable]\<close>, or \<open>None\<close> for \<^verbatim>\<open>[null, null]\<close>.
\<close>

definition inHolder ::
  "(table \<Rightarrow> table) \<Rightarrow> error + (table \<times> table) option \<Rightarrow> error + (table \<times> table) option" where
  "inHolder holder r =
     (case r of
        Inl e \<Rightarrow> Inl e
      | Inr None \<Rightarrow> Inr None
      | Inr (Some (root, filterTable)) \<Rightarrow> Inr (Some (holder root, filterTable)))"

fun findOrMakeFilterTable :: "table \<Rightarrow> error + (table \<times> table) option" where
  "findOrMakeFilterTable (Filter t f) = Inr (Some (Filter t f, Filter t f))"
| "findOrMakeFilterTable Sequence = Inl NotImplemented"
| "findOrMakeFilterTable History = Inl NotImplemented"
| "findOrMakeFilterTable Window = Inl NotImplemented"
| "findOrMakeFilterTable TimeSeries = Inl NotImplemented"
| "findOrMakeFilterTable (Aggregation t fld) = Inr None"
| "findOrMakeFilterTable (VarRef name) = Inr None"
| "findOrMakeFilterTable (ResultRef name) = Inr None"
| "findOrMakeFilterTable (Sort t fld) = inHolder (\<lambda>t'. Sort t' fld) (findOrMakeFilterTable t)"
| "findOrMakeFilterTable (Index t) = inHolder Index (findOrMakeFilterTable t)"
| "findOrMakeFilterTable (Slice t) = inHolder Slice (findOrMakeFilterTable t)"
| "findOrMakeFilterTable (Projection t args) =
     inHolder (\<lambda>t'. Projection t' args) (findOrMakeFilterTable t)"
| "findOrMakeFilterTable (ComputeT t e) = inHolder (\<lambda>t'. ComputeT t' e) (findOrMakeFilterTable t)"
| "findOrMakeFilterTable (Alias t name) = inHolder (\<lambda>t'. Alias t' name) (findOrMakeFilterTable t)"
| "findOrMakeFilterTable (Join lhs rhs) = inHolder (\<lambda>t'. Join lhs t') (findOrMakeFilterTable rhs)"
| "findOrMakeFilterTable (Invocation call) =
     (let newFilterTable = Filter (Invocation call) TrueB
      in Inr (Some (newFilterTable, newFilterTable)))"

text \<open>
  The node at which the search stops: it goes through \<open>Sort\<close>, \<open>Index\<close>, \<open>Slice\<close>,
  \<open>Projection\<close>, \<open>Compute\<close> and \<open>Alias\<close> into their table, through \<open>Join\<close> into its
  right side, and stops at every other node. \<open>spliceAt t n\<close> is \<open>t\<close> with that node
  replaced by \<open>n\<close>.
\<close>

fun reached :: "table \<Rightarrow> table" where
  "reached (Sort t fld) = reached t"
| "reached (Index t) = reached t"
| "reached (Slice t) = reached t"
| "reached (Projection t args) = reached t"
| "reached (ComputeT t e) = reached t"
| "reached (Alias t name) = reached t"
| "reached (Join lhs rhs) = reached rhs"
| "reached t = t"

fun spliceAt :: "table \<Rightarrow> table \<Rightarrow> table" where
  "spliceAt (Sort t fld) n = Sort (spliceAt t n) fld"
| "spliceAt (Index t) n = Index (spliceAt t n)"
| "spliceAt (Slice t) n = Slice (spliceAt t n)"
| "spliceAt (Projection t args) n = Projection (spliceAt t n) args"
| "spliceAt (ComputeT t e) n = ComputeT (spliceAt t n) e"
| "spliceAt (Alias t name) n = Alias (spliceAt t n) name"
| "spliceAt (Join lhs rhs) n = Join lhs (spliceAt rhs n)"
| "spliceAt t n = n"

fun isNonFilterable :: "table \<Rightarrow> bool" where
  "isNonFilterable (Aggregation t fld) = True"
| "isNonFilterable (VarRef name) = True"
| "isNonFilterable (ResultRef name) = True"
| "isNonFilterable t = False"

fun isUnsupported :: "table \<Rightarrow> bool" where
  "isUnsupported Sequence = True"
| "isUnsupported History = True"
| "isUnsupported Window = True"
| "isUnsupported TimeSeries = True"
| "isUnsupported t = False"

subsection \<open>queryRefinement\<close>

text \<open>
  \<^verbatim>\<open>filterTable\<close> is a node inside \<^verbatim>\<open>cloneTable\<close>, so the assignment
  \<^verbatim>\<open>filterTable.filter = refinedFilter\<close> changes \<^verbatim>\<open>cloneTable\<close>: the filter node
  that the search stops at gets the new predicate.
\<close>

fun assignFilter :: "table \<Rightarrow> booleanExpression \<Rightarrow> table" where
  "assignFilter (Filter t f) refinedFilter = Filter t refinedFilter"
| "assignFilter (Sort t fld) refinedFilter = Sort (assignFilter t refinedFilter) fld"
| "assignFilter (Index t) refinedFilter = Index (assignFilter t refinedFilter)"
| "assignFilter (Slice t) refinedFilter = Slice (assignFilter t refinedFilter)"
| "assignFilter (Projection t args) refinedFilter = Projection (assignFilter t refinedFilter) args"
| "assignFilter (ComputeT t e) refinedFilter = ComputeT (assignFilter t refinedFilter) e"
| "assignFilter (Alias t name) refinedFilter = Alias (assignFilter t refinedFilter) name"
| "assignFilter (Join lhs rhs) refinedFilter = Join lhs (assignFilter rhs refinedFilter)"
| "assignFilter t refinedFilter = t"

fun isProjection :: "table \<Rightarrow> bool" where
  "isProjection (Projection t args) = True"
| "isProjection t = False"

fun isInvocation :: "table \<Rightarrow> bool" where
  "isInvocation (Invocation call) = True"
| "isInvocation t = False"

text \<open>
  The projection bookkeeping at the end of \<^verbatim>\<open>queryRefinement\<close>. \<open>newProjection\<close> is
  \<open>None\<close> when the caller passes none; an array, even an empty one, is truthy.
\<close>

definition reproject :: "table \<Rightarrow> booleanExpression \<Rightarrow> string list option \<Rightarrow> error + table option" where
  "reproject cloneTable refinedFilter newProjection =
     (case newProjection of
        Some pnames \<Rightarrow>
          (let inner = (case cloneTable of Projection t args \<Rightarrow> t | _ \<Rightarrow> cloneTable)
           in if isProjection inner then Inl AssertionError
              else Inr (Some (Projection inner pnames)))
      | None \<Rightarrow>
          (case cloneTable of
             Projection t oldProjection \<Rightarrow>
               if isProjection t then Inl AssertionError
               else let kept = filter (\<lambda>pname. \<not> filterUsesParam refinedFilter pname) oldProjection
                    in if length kept > 0 then Inr (Some (Projection t kept))
                       else Inr (Some t)
           | _ \<Rightarrow> Inr (Some cloneTable)))"

text \<open>
  \<^verbatim>\<open>queryRefinement(ctxTable, newFilter, refineFilter, newProjection)\<close>. The clone is the
  table itself. When the search has returned \<^verbatim>\<open>[null, null]\<close>, the argument of the
  assertion reads \<^verbatim>\<open>filterTable.isFilter\<close> on \<^verbatim>\<open>null\<close>, which raises a
  \<^verbatim>\<open>TypeError\<close>; the test for \<^verbatim>\<open>null\<close> before it is commented out in the code.
\<close>

definition queryRefinement ::
  "table \<Rightarrow> booleanExpression \<Rightarrow> (booleanExpression \<Rightarrow> booleanExpression \<Rightarrow> booleanExpression option)
     \<Rightarrow> string list option \<Rightarrow> error + table option" where
  "queryRefinement ctxTable newFilter refineFilter newProjection =
     (case findOrMakeFilterTable ctxTable of
        Inl e \<Rightarrow> Inl e
      | Inr None \<Rightarrow> Inl TypeError
      | Inr (Some (cloneTable, filterTable)) \<Rightarrow>
          (case filterTable of
             Filter t f \<Rightarrow>
               if \<not> isInvocation t then Inl AssertionError
               else (case refineFilter f newFilter of
                       None \<Rightarrow> Inr None
                     | Some refinedFilter \<Rightarrow>
                         reproject (assignFilter cloneTable refinedFilter) refinedFilter newProjection)
           | _ \<Rightarrow> Inl AssertionError))"

section \<open>Grounding checks\<close>

text \<open>
  Modelled from the spec: the class \<^verbatim>\<open>SlotBag\<close> and \<^verbatim>\<open>arraySubset\<close> are code of this
  repository that is not among the sources. By the spec a slot bag is an ordered mapping
  from field names to values with unique keys, scoped to one function schema, and the
  grounding of an array value is "array-subset containment".
\<close>

record functionDef =
  className :: string
  functionName :: string

record slotBag =
  schema :: functionDef
  store :: "(string \<times> val) list"

definition bagHas :: "slotBag \<Rightarrow> string \<Rightarrow> bool" where
  "bagHas info name = (map_of (store info) name \<noteq> None)"

definition bagKeys :: "slotBag \<Rightarrow> string list" where
  "bagKeys info = map fst (store info)"

definition arraySubset :: "val list \<Rightarrow> val list \<Rightarrow> bool" where
  "arraySubset small big = list_all (\<lambda>element. element \<in> set big) small"

subsection \<open>isInfoPhraseCompatibleWithResult\<close>

fun entriesCompatibleWithResult :: "result \<Rightarrow> (string \<times> val) list \<Rightarrow> bool" where
  "entriesCompatibleWithResult topResult [] = True"
| "entriesCompatibleWithResult topResult ((pname, infoValue) # rest) =
     (case value topResult pname of
        None \<Rightarrow> False
      | Some resultValue \<Rightarrow>
          if isArray resultValue \<and> isArray infoValue then
            (if \<not> arraySubset (elements infoValue) (elements resultValue) then False
             else entriesCompatibleWithResult topResult rest)
          else
            (if resultValue \<noteq> infoValue then False
             else entriesCompatibleWithResult topResult rest))"

definition isInfoPhraseCompatibleWithResult :: "result \<Rightarrow> slotBag \<Rightarrow> bool" where
  "isInfoPhraseCompatibleWithResult topResult info = entriesCompatibleWithResult topResult (store info)"

subsection \<open>The context and checkInfoPhrase\<close>

text \<open>
  The part of the context the functions below read. \<open>projection\<close> is
  \<^verbatim>\<open>ctx.resultInfo.projection\<close>, \<open>None\<close> for \<^verbatim>\<open>null\<close>; \<open>nextItem\<close> is \<^verbatim>\<open>ctx.next\<close>,
  the pending turn, whose type \<open>'item\<close> the functions here do not look into.
\<close>

record nextInfo =
  isAction :: bool

record 'item contextInfo =
  currentFunction :: string
  projection :: "string list option"
  results :: "result list"
  nextInfo :: "nextInfo option"
  nextItem :: "'item option"

text \<open>
  The loop over the first three results, from index \<open>i\<close> on: \<open>True\<close> is the
  \<^verbatim>\<open>good = true; break\<close>.
\<close>

function compatibleWithTop3 :: "result list \<Rightarrow> slotBag \<Rightarrow> nat \<Rightarrow> bool" where
  "compatibleWithTop3 rs info i =
     (if i < min 3 (length rs) then
        (if isInfoPhraseCompatibleWithResult (rs ! i) info then True
         else compatibleWithTop3 rs info (i + 1))
      else False)"
  by pat_completeness auto
termination
  by (relation "measure (\<lambda>(rs, info, i). min 3 (length rs) - i)") auto

declare compatibleWithTop3.simps [simp del]

definition checkInfoPhrase :: "'item contextInfo \<Rightarrow> slotBag \<Rightarrow> error + slotBag option" where
  "checkInfoPhrase ctx info =
     (if currentFunction ctx \<noteq> className (schema info) @ '':'' @ functionName (schema info)
      then Inr None
      else
        let top3 = (if compatibleWithTop3 (results ctx) info 0 then Inr (Some info) else Inr None)
        in case projection ctx of
             Some names \<Rightarrow>
               if list_ex (\<lambda>name. \<not> bagHas info name) names then Inr None else top3
           | None \<Rightarrow>
               (case results ctx of
                  [] \<Rightarrow> Inl AssertionError
                | topResult # others \<Rightarrow>
                    if list_ex (\<lambda>name. value topResult name = None) (bagKeys info) then Inr None
                    else top3))"

subsection \<open>makeActionRecommendation and makeRecommendation\<close>

record actionRecommendation =
  topResult :: result
  info :: "slotBag option"
  action :: "invocation option"

record 'item recommendation = actionRecommendation +
  ctx :: "'item contextInfo"

definition makeActionRecommendation ::
  "'item contextInfo \<Rightarrow> invocation \<Rightarrow> error + actionRecommendation option" where
  "makeActionRecommendation c act =
     (case results c of
        [] \<Rightarrow> Inl AssertionError
      | topRow # others \<Rightarrow>
          (case value topRow ''id'' of
             None \<Rightarrow> Inr None
           | Some ident \<Rightarrow>
               if list_ex (\<lambda>param. snd param = ident) (in_params act)
               then Inr (Some \<lparr> topResult = topRow, info = None, action = Some act \<rparr>)
               else Inr None))"

text \<open>
  \<^verbatim>\<open>getActionInvocation\<close> is imported from the state module, which is not among the
  sources; it is the first argument here.
\<close>

definition makeRecommendation ::
  "('item option \<Rightarrow> invocation) \<Rightarrow> 'item contextInfo \<Rightarrow> val \<Rightarrow> error + 'item recommendation option" where
  "makeRecommendation getActionInvocation c name =
     (case results c of
        [] \<Rightarrow> Inl AssertionError
      | topRow # others \<Rightarrow>
          (case value topRow ''id'' of
             None \<Rightarrow> Inr None
           | Some ident \<Rightarrow>
               if ident \<noteq> name then Inr None
               else Inr (Some \<lparr> topResult = topRow, info = None,
                     action = (case nextInfo c of
                                 None \<Rightarrow> None
                               | Some ni \<Rightarrow> if isAction ni then Some (getActionInvocation (nextItem c)) else None),
                     ctx = c \<rparr>)))"

section \<open>Properties\<close>

lemma set_set_add: "set (set_add x s) = insert x (set s)"
  by (auto simp: set_add_def)

lemma getParamsInFilter_visit_set:
  "set (getParamsInFilter_visit f params) = constrainedFields f \<union> set params"
proof (induction f arbitrary: params)
  case (And operands)
  have "set (fold getParamsInFilter_visit ops params)
        = (\<Union>op \<in> set ops. constrainedFields op) \<union> set params"
    if "set ops \<subseteq> set operands" for ops params
    using that
  proof (induction ops arbitrary: params)
    case Nil
    then show ?case by simp
  next
    case (Cons a ops)
    then show ?case using And.IH [of a] by auto
  qed
  then show ?case by simp
next
  case (Or operands)
  have "set (fold getParamsInFilter_visit ops params)
        = (\<Union>op \<in> set ops. constrainedFields op) \<union> set params"
    if "set ops \<subseteq> set operands" for ops params
    using that
  proof (induction ops arbitrary: params)
    case Nil
    then show ?case by simp
  next
    case (Cons a ops)
    then show ?case using Or.IH [of a] by auto
  qed
  then show ?case by simp
qed (auto simp: set_set_add)

lemma getParamsInFilter_set: "set (getParamsInFilter f) = constrainedFields f"
  by (simp add: getParamsInFilter_def getParamsInFilter_visit_set)

lemma setsIntersect_iff: "setsIntersect s1 s2 \<longleftrightarrow> set s1 \<inter> set s2 \<noteq> {}"
  by (induction s1) auto

lemma neutralizeIDFilter_idem: "neutralizeIDFilter (neutralizeIDFilter f) = neutralizeIDFilter f"
  by (induction f) auto

lemma neutralizeIDFilter_spec: "neutralizeIDFilter f = neutralizeIdentity f"
  unfolding neutralizeIdentity_def by (induction f) simp_all

lemma constrainedFields_neutralize:
  "constrainedFields (neutralizeIDFilter f) - {''id''} = constrainedFields f - {''id''}"
  by (induction f) auto

text \<open>
  C9. Identity neutralization is idempotent, and it leaves the set of constrained
  fields other than the identifier field \<open>id\<close> as it was.
\<close>

theorem neutralizeIDFilter_purity:
  "neutralizeIDFilter (neutralizeIDFilter f) = neutralizeIDFilter f
   \<and> set (getParamsInFilter (neutralizeIDFilter f)) - {''id''}
       = set (getParamsInFilter f) - {''id''}"
  by (simp add: neutralizeIDFilter_idem getParamsInFilter_set constrainedFields_neutralize)

subsection \<open>The simplifier of the model preserves compatibility\<close>

lemma compat_rebuild_And:
  "isFilterCompatibleWithResult r (rebuild And TrueB ops) = list_all (isFilterCompatibleWithResult r) ops"
  by (cases "(And, TrueB, ops)" rule: rebuild.cases) auto

lemma compat_rebuild_Or:
  "isFilterCompatibleWithResult r (rebuild Or FalseB ops) = list_ex (isFilterCompatibleWithResult r) ops"
  by (cases "(Or, FalseB, ops)" rule: rebuild.cases) auto

lemma compat_andOperands:
  "list_all (isFilterCompatibleWithResult r) (andOperands g) = isFilterCompatibleWithResult r g"
  by (cases g) auto

lemma compat_orOperands:
  "list_ex (isFilterCompatibleWithResult r) (orOperands g) = isFilterCompatibleWithResult r g"
  by (cases g) auto

lemma optimize_compat:
  "isFilterCompatibleWithResult r (optimize f) = isFilterCompatibleWithResult r f"
proof (induction f)
  case (And operands)
  let ?flat = "concat (map (\<lambda>op. andOperands (optimize op)) operands)"
  let ?ops = "filter (\<lambda>op. op \<noteq> TrueB) ?flat"
  have flat: "list_all (isFilterCompatibleWithResult r) ?flat
              = list_all (isFilterCompatibleWithResult r) operands"
    using And.IH
  proof (induction operands)
    case Nil
    then show ?case by simp
  next
    case (Cons a operands)
    then show ?case using compat_andOperands [of r "optimize a"] by simp
  qed
  have ops: "list_all (isFilterCompatibleWithResult r) ?ops
             = list_all (isFilterCompatibleWithResult r) ?flat"
    by (induction ?flat) (auto simp: list_all_iff)
  have "FalseB \<in> set ?ops \<Longrightarrow> \<not> list_all (isFilterCompatibleWithResult r) ?ops"
    by (auto simp: list_all_iff)
  then show ?case
    using flat ops by (auto simp: Let_def compat_rebuild_And simp del: set_filter set_concat)
next
  case (Or operands)
  let ?flat = "concat (map (\<lambda>op. orOperands (optimize op)) operands)"
  let ?ops = "filter (\<lambda>op. op \<noteq> FalseB) ?flat"
  have flat: "list_ex (isFilterCompatibleWithResult r) ?flat
              = list_ex (isFilterCompatibleWithResult r) operands"
    using Or.IH
  proof (induction operands)
    case Nil
    then show ?case by simp
  next
    case (Cons a operands)
    then show ?case using compat_orOperands [of r "optimize a"] by simp
  qed
  have ops: "list_ex (isFilterCompatibleWithResult r) ?ops
             = list_ex (isFilterCompatibleWithResult r) ?flat"
    by (auto simp: list_ex_iff)
  have "TrueB \<in> set ?ops \<Longrightarrow> list_ex (isFilterCompatibleWithResult r) ?ops"
    by (auto simp: list_ex_iff)
  then show ?case
    using flat ops by (auto simp: Let_def compat_rebuild_Or simp del: set_filter set_concat)
qed auto

subsection \<open>refineFilterToAnswerQuestion\<close>

text \<open>
  Neutralization replaces an \<open>id ==\<close> atom by \<open>True\<close>. At positive polarity that can
  only make a predicate weaker, at negative polarity only stronger.
\<close>

lemma neutralize_polarity:
  "idAtomsPositive pos f \<Longrightarrow>
     (if pos then isFilterCompatibleWithResult r f \<longrightarrow> isFilterCompatibleWithResult r (neutralizeIDFilter f)
      else isFilterCompatibleWithResult r (neutralizeIDFilter f) \<longrightarrow> isFilterCompatibleWithResult r f)"
proof (induction f arbitrary: pos)
  case (NotB f)
  show ?case
  proof (cases pos)
    case True
    with NotB.prems NotB.IH [of False] show ?thesis by auto
  next
    case False
    with NotB.prems NotB.IH [of True] show ?thesis by auto
  qed
next
  case (And operands)
  have "\<forall>op \<in> set operands. idAtomsPositive pos op"
    using And.prems by (simp add: list_all_iff)
  then have step: "\<forall>op \<in> set operands.
      (if pos then isFilterCompatibleWithResult r op \<longrightarrow> isFilterCompatibleWithResult r (neutralizeIDFilter op)
       else isFilterCompatibleWithResult r (neutralizeIDFilter op) \<longrightarrow> isFilterCompatibleWithResult r op)"
    using And.IH by blast
  show ?case
  proof (cases pos)
    case True
    with step show ?thesis by (simp add: list_all_iff)
  next
    case False
    with step show ?thesis by (simp add: list_all_iff)
  qed
next
  case (Or operands)
  have "\<forall>op \<in> set operands. idAtomsPositive pos op"
    using Or.prems by (simp add: list_all_iff)
  then have step: "\<forall>op \<in> set operands.
      (if pos then isFilterCompatibleWithResult r op \<longrightarrow> isFilterCompatibleWithResult r (neutralizeIDFilter op)
       else isFilterCompatibleWithResult r (neutralizeIDFilter op) \<longrightarrow> isFilterCompatibleWithResult r op)"
    using Or.IH by blast
  show ?case
  proof (cases pos)
    case True
    with step show ?thesis by (auto simp: list_ex_iff)
  next
    case False
    with step show ?thesis by (auto simp: list_ex_iff)
  qed
next
  case (Atom name operator v)
  then show ?case by (cases pos) (auto split: option.splits)
qed simp_all

text \<open>
  C4, as stated, fails. The context predicate is \<open>not (id == "A")\<close>, the answer is
  \<open>price_range == "cheap"\<close>, and the row has \<open>id = "B"\<close> and \<open>price_range = "cheap"\<close>.
  The field sets are disjoint and the row is compatible with both predicates, but
  neutralization turns the context predicate into \<open>not True\<close>, and the row is not
  compatible with the result.
\<close>

theorem answerQuestion_monotonicity_counterexample:
  "set (getParamsInFilter (NotB (Atom ''id'' ''=='' (VString ''A''))))
     \<inter> set (getParamsInFilter (Atom ''price_range'' ''=='' (VString ''cheap''))) = {}
   \<and> isFilterCompatibleWithResult
         \<lparr> value = [''id'' \<mapsto> VString ''B'', ''price_range'' \<mapsto> VString ''cheap''] \<rparr>
         (NotB (Atom ''id'' ''=='' (VString ''A'')))
   \<and> isFilterCompatibleWithResult
         \<lparr> value = [''id'' \<mapsto> VString ''B'', ''price_range'' \<mapsto> VString ''cheap''] \<rparr>
         (Atom ''price_range'' ''=='' (VString ''cheap''))
   \<and> refineFilterToAnswerQuestion optimize
         (NotB (Atom ''id'' ''=='' (VString ''A''))) (Atom ''price_range'' ''=='' (VString ''cheap''))
       \<noteq> None
   \<and> \<not> isFilterCompatibleWithResult
         \<lparr> value = [''id'' \<mapsto> VString ''B'', ''price_range'' \<mapsto> VString ''cheap''] \<rparr>
         (the (refineFilterToAnswerQuestion optimize
            (NotB (Atom ''id'' ''=='' (VString ''A''))) (Atom ''price_range'' ''=='' (VString ''cheap''))))"
  by (simp add: getParamsInFilter_def set_add_def refineFilterToAnswerQuestion_def)

text \<open>
  C4, amended. For predicates \<open>old\<close> and \<open>new\<close> with disjoint field sets the
  answerQuestion strategy succeeds, and its result is the simplification of the
  conjunction of the neutralized \<open>old\<close> with \<open>new\<close>. If no \<open>id ==\<close> atom of \<open>old\<close>
  lies under an odd number of negations, a row that is compatible with \<open>old\<close> and
  with \<open>new\<close> is compatible with that conjunction. Nothing is said of the compatibility
  of the simplified result: compatibility is an approximation (every operator other than
  \<open>==\<close> and \<open>=~\<close> counts as compatible), which a simplifier that keeps the meaning of
  a predicate need not keep.
\<close>

theorem answerQuestion_monotonicity:
  assumes "set (getParamsInFilter old) \<inter> set (getParamsInFilter new) = {}"
  shows "refineFilterToAnswerQuestion opt old new = Some (opt (And [neutralizeIdentity old, new]))
         \<and> (idAtomsPositive True old
              \<and> isFilterCompatibleWithResult row old
              \<and> isFilterCompatibleWithResult row new
            \<longrightarrow> isFilterCompatibleWithResult row (And [neutralizeIdentity old, new]))"
proof -
  have "refineFilterToAnswerQuestion opt old new = Some (opt (And [neutralizeIdentity old, new]))"
    using assms
    by (simp add: refineFilterToAnswerQuestion_def setsIntersect_iff neutralizeIDFilter_spec)
  moreover have "isFilterCompatibleWithResult row (And [neutralizeIdentity old, new])"
    if "idAtomsPositive True old"
      and "isFilterCompatibleWithResult row old"
      and "isFilterCompatibleWithResult row new"
  proof -
    have "isFilterCompatibleWithResult row (neutralizeIDFilter old)"
      using neutralize_polarity [of True old row] that(1,2) by simp
    with that(3) show ?thesis by (simp add: neutralizeIDFilter_spec)
  qed
  ultimately show ?thesis by blast
qed

theorem answerQuestion_monotonicity_witness:
  "set (getParamsInFilter (And [Atom ''id'' ''=='' (VString ''B''), Atom ''cuisine'' ''=='' (VString ''italian'')]))
     \<inter> set (getParamsInFilter (Atom ''price_range'' ''=='' (VString ''cheap''))) = {}
   \<and> refineFilterToAnswerQuestion optimize
         (And [Atom ''id'' ''=='' (VString ''B''), Atom ''cuisine'' ''=='' (VString ''italian'')])
         (Atom ''price_range'' ''=='' (VString ''cheap''))
       = Some (And [Atom ''cuisine'' ''=='' (VString ''italian''),
                    Atom ''price_range'' ''=='' (VString ''cheap'')])
   \<and> isFilterCompatibleWithResult
         \<lparr> value = [''id'' \<mapsto> VString ''B'', ''cuisine'' \<mapsto> VString ''italian'',
                     ''price_range'' \<mapsto> VString ''cheap''] \<rparr>
         (And [And [TrueB, Atom ''cuisine'' ''=='' (VString ''italian'')],
               Atom ''price_range'' ''=='' (VString ''cheap'')])"
proof -
  let ?old = "And [Atom ''id'' ''=='' (VString ''B''), Atom ''cuisine'' ''=='' (VString ''italian'')]"
  let ?new = "Atom ''price_range'' ''=='' (VString ''cheap'')"
  let ?row = "\<lparr> value = [''id'' \<mapsto> VString ''B'', ''cuisine'' \<mapsto> VString ''italian'',
                         ''price_range'' \<mapsto> VString ''cheap''] \<rparr>"
  have disjoint: "set (getParamsInFilter ?old) \<inter> set (getParamsInFilter ?new) = {}"
    by (simp add: getParamsInFilter_def set_add_def)
  have shape: "idAtomsPositive True ?old" by simp
  have old: "isFilterCompatibleWithResult ?row ?old" by simp
  have new: "isFilterCompatibleWithResult ?row ?new" by simp
  have neutral: "neutralizeIdentity ?old = And [TrueB, Atom ''cuisine'' ''=='' (VString ''italian'')]"
    by (simp add: neutralizeIdentity_def)
  from answerQuestion_monotonicity [OF disjoint, of optimize ?row] shape old new disjoint
  show ?thesis unfolding neutral by simp
qed

text \<open>
  What the amended claim leaves out cannot be had for every simplifier: with the
  context predicate \<open>not (cuisine == "italian" or cuisine == "thai")\<close>, which has no
  \<open>id\<close> atom, a Chinese cheap restaurant is compatible with the context and with
  \<open>price_range == "cheap"\<close>, and it is not compatible with the result once the
  disjunction has been written as an \<open>in_array\<close> atom.
\<close>

lemma simplified_result_not_compatible:
  "idAtomsPositive True
     (NotB (Or [Atom ''cuisine'' ''=='' (VString ''italian''), Atom ''cuisine'' ''=='' (VString ''thai'')]))
   \<and> isFilterCompatibleWithResult
         \<lparr> value = [''cuisine'' \<mapsto> VString ''chinese'', ''price_range'' \<mapsto> VString ''cheap''] \<rparr>
         (NotB (Or [Atom ''cuisine'' ''=='' (VString ''italian''), Atom ''cuisine'' ''=='' (VString ''thai'')]))
   \<and> isFilterCompatibleWithResult
         \<lparr> value = [''cuisine'' \<mapsto> VString ''chinese'', ''price_range'' \<mapsto> VString ''cheap''] \<rparr>
         (Atom ''price_range'' ''=='' (VString ''cheap''))
   \<and> refineFilterToAnswerQuestion mergeEqualities
         (NotB (Or [Atom ''cuisine'' ''=='' (VString ''italian''), Atom ''cuisine'' ''=='' (VString ''thai'')]))
         (Atom ''price_range'' ''=='' (VString ''cheap''))
       = Some (And [NotB (Atom ''cuisine'' ''in_array'' (VArray [VString ''italian'', VString ''thai''])),
                    Atom ''price_range'' ''=='' (VString ''cheap'')])
   \<and> \<not> isFilterCompatibleWithResult
         \<lparr> value = [''cuisine'' \<mapsto> VString ''chinese'', ''price_range'' \<mapsto> VString ''cheap''] \<rparr>
         (And [NotB (Atom ''cuisine'' ''in_array'' (VArray [VString ''italian'', VString ''thai''])),
               Atom ''price_range'' ''=='' (VString ''cheap'')])"
  by (simp add: getParamsInFilter_def set_add_def refineFilterToAnswerQuestion_def)

text \<open>
  C5. The answerQuestion strategy rejects exactly when some field is constrained by
  both predicates, and otherwise returns the simplification of the conjunction of the
  neutralized \<open>old\<close> with \<open>new\<close>. Neutralization is stated in the spec's words
  (\<open>neutralizeIdentity\<close>); that the code's \<open>neutralizeIDFilter\<close> computes it is
  lemma \<open>neutralizeIDFilter_spec\<close>.
\<close>

theorem refineFilterToAnswerQuestion_result:
  "(refineFilterToAnswerQuestion opt old new = None
      \<longleftrightarrow> (\<exists>p. p \<in> constrainedFields old \<and> p \<in> constrainedFields new))
   \<and> ((\<nexists>p. p \<in> constrainedFields old \<and> p \<in> constrainedFields new)
      \<longrightarrow> refineFilterToAnswerQuestion opt old new = Some (opt (And [neutralizeIdentity old, new])))"
  by (auto simp: refineFilterToAnswerQuestion_def setsIntersect_iff getParamsInFilter_set
      neutralizeIDFilter_spec)

theorem refineFilterToAnswerQuestion_result_witness:
  "refineFilterToAnswerQuestion optimize
     (And [Atom ''id'' ''=='' (VString ''R1''), NotB (Atom ''id'' ''=='' (VString ''R2'')),
           Atom ''id'' ''=~'' (VString ''R''), Atom ''cuisine'' ''=='' (VString ''italian'')])
     (Atom ''price_range'' ''=='' (VString ''cheap''))
     = Some (And [NotB TrueB, Atom ''id'' ''=~'' (VString ''R''),
                  Atom ''cuisine'' ''=='' (VString ''italian''),
                  Atom ''price_range'' ''=='' (VString ''cheap'')])
   \<and> refineFilterToAnswerQuestion optimize
     (Atom ''cuisine'' ''=='' (VString ''italian'')) (Atom ''cuisine'' ''=='' (VString ''chinese''))
     = None"
proof -
  define old where "old = And [Atom ''id'' ''=='' (VString ''R1''), NotB (Atom ''id'' ''=='' (VString ''R2'')),
           Atom ''id'' ''=~'' (VString ''R''), Atom ''cuisine'' ''=='' (VString ''italian'')]"
  define cheap where "cheap = Atom ''price_range'' ''=='' (VString ''cheap'')"
  define italian where "italian = Atom ''cuisine'' ''=='' (VString ''italian'')"
  define chinese where "chinese = Atom ''cuisine'' ''=='' (VString ''chinese'')"
  have disjoint: "\<nexists>p. p \<in> constrainedFields old \<and> p \<in> constrainedFields cheap"
    by (simp add: old_def cheap_def)
  have shared: "\<exists>p. p \<in> constrainedFields italian \<and> p \<in> constrainedFields chinese"
    by (simp add: italian_def chinese_def)
  have simplified: "optimize (And [neutralizeIdentity old, cheap])
      = And [NotB TrueB, Atom ''id'' ''=~'' (VString ''R''),
             Atom ''cuisine'' ''=='' (VString ''italian''),
             Atom ''price_range'' ''=='' (VString ''cheap'')]"
    by (simp add: old_def cheap_def neutralizeIdentity_def)
  have r1: "refineFilterToAnswerQuestion optimize old cheap
      = Some (optimize (And [neutralizeIdentity old, cheap]))"
    using disjoint refineFilterToAnswerQuestion_result [of optimize old cheap] by blast
  have r2: "refineFilterToAnswerQuestion optimize italian chinese = None"
    using shared refineFilterToAnswerQuestion_result [of optimize italian chinese] by blast
  show ?thesis
    using r1 r2 unfolding simplified
    unfolding old_def cheap_def italian_def chinese_def by simp
qed

subsection \<open>findOrMakeFilterTable and queryRefinement\<close>

lemma inHolder_simps [simp]:
  "inHolder h (Inl e) = Inl e"
  "inHolder h (Inr None) = Inr None"
  "inHolder h (Inr (Some (root, ft))) = Inr (Some (h root, ft))"
  by (simp_all add: inHolder_def)

lemma find_nonFilterable: "isNonFilterable (reached t) \<Longrightarrow> findOrMakeFilterTable t = Inr None"
  by (induction t) auto

lemma find_unsupported: "isUnsupported (reached t) \<Longrightarrow> findOrMakeFilterTable t = Inl NotImplemented"
  by (induction t) auto

lemma find_invocation:
  "reached t = Invocation call \<Longrightarrow>
   findOrMakeFilterTable t
     = Inr (Some (spliceAt t (Filter (Invocation call) TrueB), Filter (Invocation call) TrueB))"
  by (induction t) (auto simp: Let_def)

text \<open>
  C8. When the attachment search reaches an \<open>Aggregation\<close>, \<open>VarRef\<close> or
  \<open>ResultRef\<close> it returns \<^verbatim>\<open>[null, null]\<close>; when it reaches a \<open>Sequence\<close>,
  \<open>History\<close>, \<open>Window\<close> or \<open>TimeSeries\<close> it raises; when it reaches the invocation
  it returns the tree with \<open>Filter (Invocation call) True\<close> in the place of the
  invocation, paired with that new node. The place is the root when the invocation is
  the root, the table of the pass-through parent, or the right side of the parent join.
\<close>

theorem findOrMakeFilterTable_reached:
  "(isNonFilterable (reached t) \<longrightarrow> findOrMakeFilterTable t = Inr None)
   \<and> (isUnsupported (reached t) \<longrightarrow> findOrMakeFilterTable t = Inl NotImplemented)
   \<and> (\<forall>call. reached t = Invocation call \<longrightarrow>
         findOrMakeFilterTable t
           = Inr (Some (spliceAt t (Filter (Invocation call) TrueB), Filter (Invocation call) TrueB)))
   \<and> spliceAt (Invocation call) n = n
   \<and> spliceAt (Projection (Invocation call) args) n = Projection n args
   \<and> spliceAt (Join lhs (Invocation call)) n = Join lhs n"
  using find_nonFilterable find_unsupported find_invocation by simp

theorem findOrMakeFilterTable_reached_witness:
  "findOrMakeFilterTable
     (Sort (Aggregation (Invocation \<lparr> selector = ''com.yelp'', channel = ''restaurant'', in_params = [] \<rparr>) ''count'') ''count'')
     = Inr None
   \<and> findOrMakeFilterTable (Index (Join (VarRef ''t'') Window)) = Inl NotImplemented
   \<and> findOrMakeFilterTable
       (Projection (Join (VarRef ''t'')
          (Invocation \<lparr> selector = ''com.yelp'', channel = ''restaurant'', in_params = [] \<rparr>)) [''price_range''])
     = Inr (Some (
         Projection (Join (VarRef ''t'')
           (Filter (Invocation \<lparr> selector = ''com.yelp'', channel = ''restaurant'', in_params = [] \<rparr>) TrueB))
           [''price_range''],
         Filter (Invocation \<lparr> selector = ''com.yelp'', channel = ''restaurant'', in_params = [] \<rparr>) TrueB))"
  using findOrMakeFilterTable_reached
      [of "Sort (Aggregation (Invocation \<lparr> selector = ''com.yelp'', channel = ''restaurant'', in_params = [] \<rparr>) ''count'') ''count''"]
    findOrMakeFilterTable_reached [of "Index (Join (VarRef ''t'') Window)"]
    findOrMakeFilterTable_reached
      [of "Projection (Join (VarRef ''t'')
          (Invocation \<lparr> selector = ''com.yelp'', channel = ''restaurant'', in_params = [] \<rparr>)) [''price_range'']"]
  by simp

text \<open>
  C1, as stated, fails: on a table whose attachment search reaches an \<open>Aggregation\<close>,
  \<^verbatim>\<open>queryRefinement\<close> does not return \<^verbatim>\<open>null\<close>, it raises.
\<close>

theorem queryRefinement_no_attachment_counterexample:
  "findOrMakeFilterTable
     (Aggregation (Invocation \<lparr> selector = ''com.yelp'', channel = ''restaurant'', in_params = [] \<rparr>) ''count'')
     = Inr None
   \<and> queryRefinement
       (Aggregation (Invocation \<lparr> selector = ''com.yelp'', channel = ''restaurant'', in_params = [] \<rparr>) ''count'')
       (Atom ''price_range'' ''=='' (VString ''cheap''))
       (refineFilterToAnswerQuestion optimize) None
     = Inl TypeError"
  by (simp add: queryRefinement_def)

text \<open>
  C1, amended. For every query expression whose attachment search reaches an
  \<open>Aggregation\<close>, \<open>VarRef\<close> or \<open>ResultRef\<close>, \<^verbatim>\<open>queryRefinement\<close> raises a
  \<^verbatim>\<open>TypeError\<close>, whatever the new predicate, the strategy and the projection are; it
  returns no table.
\<close>

theorem queryRefinement_no_attachment:
  "isNonFilterable (reached t) \<Longrightarrow>
   queryRefinement t newFilter refineFilter newProjection = Inl TypeError"
  by (simp add: queryRefinement_def find_nonFilterable)

theorem queryRefinement_no_attachment_witness:
  "isNonFilterable (reached (Projection (ResultRef ''last'') [''price_range'']))
   \<and> queryRefinement (Projection (ResultRef ''last'') [''price_range''])
       (Atom ''price_range'' ''=='' (VString ''cheap''))
       (refineFilterToAnswerQuestion optimize) (Some [''cuisine''])
     = Inl TypeError"
proof -
  have h: "isNonFilterable (reached (Projection (ResultRef ''last'') [''price_range'']))" by simp
  show ?thesis using h queryRefinement_no_attachment [OF h] by simp
qed

subsection \<open>Grounding\<close>

lemma entriesCompatibleWithResult_iff:
  "entriesCompatibleWithResult r es \<longleftrightarrow>
     (\<forall>(p, v) \<in> set es.
        case value r p of
          None \<Rightarrow> False
        | Some rv \<Rightarrow> if isArray rv \<and> isArray v then set (elements v) \<subseteq> set (elements rv) else rv = v)"
proof (induction es)
  case Nil
  show ?case by simp
next
  case (Cons e es)
  obtain p v where e: "e = (p, v)" by (cases e)
  show ?case
  proof (cases "value r p")
    case None
    then show ?thesis unfolding e by simp
  next
    case (Some rv)
    then show ?thesis
      using Cons.IH unfolding e
      by (cases "isArray rv \<and> isArray v") (auto simp: arraySubset_def list_all_iff)
  qed
qed

lemma compatibleWithTop3_from:
  "compatibleWithTop3 rs bag i \<longleftrightarrow>
     (\<exists>j. i \<le> j \<and> j < min 3 (length rs) \<and> isInfoPhraseCompatibleWithResult (rs ! j) bag)"
proof (induction rs bag i rule: compatibleWithTop3.induct)
  case (1 rs bag i)
  show ?case
  proof (cases "i < min 3 (length rs)")
    case False
    then show ?thesis by (subst compatibleWithTop3.simps) auto
  next
    case True
    show ?thesis
    proof (cases "isInfoPhraseCompatibleWithResult (rs ! i) bag")
      case True
      with \<open>i < min 3 (length rs)\<close> show ?thesis
        by (subst compatibleWithTop3.simps) auto
    next
      case False
      have "compatibleWithTop3 rs bag i = compatibleWithTop3 rs bag (i + 1)"
        using True False by (subst compatibleWithTop3.simps) simp
      also have "\<dots> = (\<exists>j. i + 1 \<le> j \<and> j < min 3 (length rs) \<and> isInfoPhraseCompatibleWithResult (rs ! j) bag)"
        using "1.IH" [OF True False] .
      also have "\<dots> = (\<exists>j. i \<le> j \<and> j < min 3 (length rs) \<and> isInfoPhraseCompatibleWithResult (rs ! j) bag)"
        using False by (metis Suc_eq_plus1 Suc_leD Suc_leI le_neq_implies_less)
      finally show ?thesis .
    qed
  qed
qed

lemma compatibleWithTop3_set:
  "compatibleWithTop3 rs bag 0 \<longleftrightarrow> (\<exists>r \<in> set (take 3 rs). isInfoPhraseCompatibleWithResult r bag)"
proof -
  have "(\<exists>r \<in> set (take 3 rs). isInfoPhraseCompatibleWithResult r bag)
        \<longleftrightarrow> (\<exists>j < length (take 3 rs). isInfoPhraseCompatibleWithResult (take 3 rs ! j) bag)"
    by (metis in_set_conv_nth)
  also have "\<dots> \<longleftrightarrow> (\<exists>j. j < min 3 (length rs) \<and> isInfoPhraseCompatibleWithResult (rs ! j) bag)"
    by (auto simp: min_def)
  finally show ?thesis by (simp add: compatibleWithTop3_from)
qed

text \<open>
  C3, as stated, fails. The bag holds \<open>price_range = "cheap"\<close> and
  \<open>cuisine = "italian"\<close>; the first row is a cheap Chinese restaurant and the second an
  expensive Italian one. Each field of the bag is matched by one of the rows, but no row
  matches the whole bag, and the check over the top three results fails.
\<close>

theorem top3_different_rows_counterexample:
  "entriesCompatibleWithResult
     \<lparr> value = [''price_range'' \<mapsto> VString ''cheap'', ''cuisine'' \<mapsto> VString ''chinese''] \<rparr>
     [(''price_range'', VString ''cheap'')]
   \<and> entriesCompatibleWithResult
     \<lparr> value = [''price_range'' \<mapsto> VString ''expensive'', ''cuisine'' \<mapsto> VString ''italian''] \<rparr>
     [(''cuisine'', VString ''italian'')]
   \<and> \<not> compatibleWithTop3
       [\<lparr> value = [''price_range'' \<mapsto> VString ''cheap'', ''cuisine'' \<mapsto> VString ''chinese''] \<rparr>,
        \<lparr> value = [''price_range'' \<mapsto> VString ''expensive'', ''cuisine'' \<mapsto> VString ''italian''] \<rparr>]
       \<lparr> schema = \<lparr> className = ''com.yelp'', functionName = ''restaurant'' \<rparr>,
         store = [(''price_range'', VString ''cheap''), (''cuisine'', VString ''italian'')] \<rparr>
       0"
  by (simp add: compatibleWithTop3.simps isInfoPhraseCompatibleWithResult_def)

text \<open>
  C3, amended. The check over the top three results succeeds if and only if at least
  one of the first three rows has every field of the bag and satisfies, for each of them,
  array-subset containment (when both values are arrays) or equality with the value of
  the bag: one and the same row has to match all the fields of the bag.
\<close>

theorem top3_same_row:
  "compatibleWithTop3 rs bag 0 \<longleftrightarrow>
     (\<exists>r \<in> set (take 3 rs). \<forall>(p, v) \<in> set (store bag).
        case value r p of
          None \<Rightarrow> False
        | Some rv \<Rightarrow> if isArray rv \<and> isArray v then set (elements v) \<subseteq> set (elements rv) else rv = v)"
  by (simp add: compatibleWithTop3_set isInfoPhraseCompatibleWithResult_def
      entriesCompatibleWithResult_iff)

theorem top3_same_row_witness:
  "compatibleWithTop3
     [\<lparr> value = [''price_range'' \<mapsto> VString ''cheap'', ''cuisine'' \<mapsto> VString ''chinese''] \<rparr>,
      \<lparr> value = [''price_range'' \<mapsto> VString ''cheap'', ''cuisine'' \<mapsto> VString ''italian''] \<rparr>]
     \<lparr> schema = \<lparr> className = ''com.yelp'', functionName = ''restaurant'' \<rparr>,
       store = [(''price_range'', VString ''cheap''), (''cuisine'', VString ''italian'')] \<rparr>
     0"
  using top3_same_row
    [of "[\<lparr> value = [''price_range'' \<mapsto> VString ''cheap'', ''cuisine'' \<mapsto> VString ''chinese''] \<rparr>,
          \<lparr> value = [''price_range'' \<mapsto> VString ''cheap'', ''cuisine'' \<mapsto> VString ''italian''] \<rparr>]"
        "\<lparr> schema = \<lparr> className = ''com.yelp'', functionName = ''restaurant'' \<rparr>,
           store = [(''price_range'', VString ''cheap''), (''cuisine'', VString ''italian'')] \<rparr>"]
  by simp

text \<open>
  C2, as stated, fails. The projection is \<open>price_range\<close>; the bag holds \<open>price_range\<close>
  and \<open>cuisine\<close>, and the top row agrees with both. \<open>cuisine\<close> is not in the
  projection, and the bag is accepted.
\<close>

theorem checkInfoPhrase_projection_counterexample:
  "projection
     (\<lparr> currentFunction = ''com.yelp:restaurant'', projection = Some [''price_range''],
        results = [\<lparr> value = [''price_range'' \<mapsto> VString ''cheap'', ''cuisine'' \<mapsto> VString ''italian''] \<rparr>],
        nextInfo = None, nextItem = None \<rparr> :: unit contextInfo) = Some [''price_range'']
   \<and> ''cuisine'' \<in> set (bagKeys
       \<lparr> schema = \<lparr> className = ''com.yelp'', functionName = ''restaurant'' \<rparr>,
         store = [(''price_range'', VString ''cheap''), (''cuisine'', VString ''italian'')] \<rparr>)
   \<and> ''cuisine'' \<notin> set [''price_range'']
   \<and> checkInfoPhrase
       (\<lparr> currentFunction = ''com.yelp:restaurant'', projection = Some [''price_range''],
          results = [\<lparr> value = [''price_range'' \<mapsto> VString ''cheap'', ''cuisine'' \<mapsto> VString ''italian''] \<rparr>],
          nextInfo = None, nextItem = None \<rparr> :: unit contextInfo)
       \<lparr> schema = \<lparr> className = ''com.yelp'', functionName = ''restaurant'' \<rparr>,
         store = [(''price_range'', VString ''cheap''), (''cuisine'', VString ''italian'')] \<rparr>
     = Inr (Some
       \<lparr> schema = \<lparr> className = ''com.yelp'', functionName = ''restaurant'' \<rparr>,
         store = [(''price_range'', VString ''cheap''), (''cuisine'', VString ''italian'')] \<rparr>)"
  by (simp add: checkInfoPhrase_def bagKeys_def bagHas_def compatibleWithTop3.simps
      isInfoPhraseCompatibleWithResult_def)

text \<open>
  C2, amended. For a context whose active projection is set and whose first three result
  rows carry no field outside the projection, and a bag of the same function,
  \<^verbatim>\<open>checkInfoPhrase\<close> accepts only when every field of the bag is a member of the
  projection; a bag with a field outside the projection is rejected. Whatever the rows
  carry, it accepts only when every field of the projection is a field of the bag, and a
  bag that lacks a field of the projection is rejected.
\<close>

theorem checkInfoPhrase_projection:
  assumes "projection c = Some names"
    and "currentFunction c = className (schema bag) @ '':'' @ functionName (schema bag)"
  shows "((\<forall>row \<in> set (take 3 (results c)). dom (value row) \<subseteq> set names) \<longrightarrow>
            (\<forall>accepted. checkInfoPhrase c bag = Inr (Some accepted)
               \<longrightarrow> (\<forall>name \<in> set (bagKeys bag). name \<in> set names))
            \<and> ((\<exists>name \<in> set (bagKeys bag). name \<notin> set names)
               \<longrightarrow> checkInfoPhrase c bag = Inr None))
       \<and> (\<forall>accepted. checkInfoPhrase c bag = Inr (Some accepted)
             \<longrightarrow> (\<forall>name \<in> set names. bagHas bag name))
       \<and> ((\<exists>name \<in> set names. \<not> bagHas bag name) \<longrightarrow> checkInfoPhrase c bag = Inr None)"
proof -
  have result: "checkInfoPhrase c bag
      = (if (\<forall>name \<in> set names. bagHas bag name) \<and> compatibleWithTop3 (results c) bag 0
         then Inr (Some bag) else Inr None)"
    using assms by (simp add: checkInfoPhrase_def Let_def list_ex_iff)
  have grounded: "\<forall>name \<in> set (bagKeys bag). name \<in> set names"
    if rows: "\<forall>row \<in> set (take 3 (results c)). dom (value row) \<subseteq> set names"
      and top3: "compatibleWithTop3 (results c) bag 0"
  proof
    fix name
    assume "name \<in> set (bagKeys bag)"
    then obtain v where entry: "(name, v) \<in> set (store bag)"
      by (auto simp: bagKeys_def)
    from top3 obtain row where row: "row \<in> set (take 3 (results c))"
      and matches: "entriesCompatibleWithResult row (store bag)"
      by (auto simp: compatibleWithTop3_set isInfoPhraseCompatibleWithResult_def)
    from matches entry have "value row name \<noteq> None"
      by (auto simp: entriesCompatibleWithResult_iff split: option.splits)
    then have "name \<in> dom (value row)" by (simp add: dom_def)
    with rows row show "name \<in> set names" by blast
  qed
  show ?thesis
    unfolding result using grounded by (auto split: if_splits)
qed

theorem checkInfoPhrase_projection_witness:
  "checkInfoPhrase
     (\<lparr> currentFunction = ''com.yelp:restaurant'', projection = Some [''price_range''],
        results = [\<lparr> value = [''price_range'' \<mapsto> VString ''cheap''] \<rparr>],
        nextInfo = None, nextItem = None \<rparr> :: unit contextInfo)
     \<lparr> schema = \<lparr> className = ''com.yelp'', functionName = ''restaurant'' \<rparr>,
       store = [(''price_range'', VString ''cheap''), (''cuisine'', VString ''italian'')] \<rparr>
   = Inr None
   \<and> checkInfoPhrase
     (\<lparr> currentFunction = ''com.yelp:restaurant'', projection = Some [''price_range'', ''cuisine''],
        results = [\<lparr> value = [''price_range'' \<mapsto> VString ''cheap'', ''cuisine'' \<mapsto> VString ''italian''] \<rparr>],
        nextInfo = None, nextItem = None \<rparr> :: unit contextInfo)
     \<lparr> schema = \<lparr> className = ''com.yelp'', functionName = ''restaurant'' \<rparr>,
       store = [(''price_range'', VString ''cheap'')] \<rparr>
   = Inr None"
proof -
  define narrow :: "unit contextInfo" where
    "narrow = \<lparr> currentFunction = ''com.yelp:restaurant'', projection = Some [''price_range''],
        results = [\<lparr> value = [''price_range'' \<mapsto> VString ''cheap''] \<rparr>],
        nextInfo = None, nextItem = None \<rparr>"
  define wide :: "unit contextInfo" where
    "wide = \<lparr> currentFunction = ''com.yelp:restaurant'', projection = Some [''price_range'', ''cuisine''],
        results = [\<lparr> value = [''price_range'' \<mapsto> VString ''cheap'', ''cuisine'' \<mapsto> VString ''italian''] \<rparr>],
        nextInfo = None, nextItem = None \<rparr>"
  define both where
    "both = \<lparr> schema = \<lparr> className = ''com.yelp'', functionName = ''restaurant'' \<rparr>,
       store = [(''price_range'', VString ''cheap''), (''cuisine'', VString ''italian'')] \<rparr>"
  define price where
    "price = \<lparr> schema = \<lparr> className = ''com.yelp'', functionName = ''restaurant'' \<rparr>,
       store = [(''price_range'', VString ''cheap'')] \<rparr>"
  have p1: "projection narrow = Some [''price_range'']" by (simp add: narrow_def)
  have f1: "currentFunction narrow = className (schema both) @ '':'' @ functionName (schema both)"
    by (simp add: narrow_def both_def)
  have rows: "\<forall>row \<in> set (take 3 (results narrow)). dom (value row) \<subseteq> set [''price_range'']"
    by (simp add: narrow_def)
  have outside: "\<exists>name \<in> set (bagKeys both). name \<notin> set [''price_range'']"
    by (simp add: both_def bagKeys_def)
  have p2: "projection wide = Some [''price_range'', ''cuisine'']" by (simp add: wide_def)
  have f2: "currentFunction wide = className (schema price) @ '':'' @ functionName (schema price)"
    by (simp add: wide_def price_def)
  have missing: "\<exists>name \<in> set [''price_range'', ''cuisine'']. \<not> bagHas price name"
    by (simp add: price_def bagHas_def)
  have r1: "checkInfoPhrase narrow both = Inr None"
    using checkInfoPhrase_projection [OF p1 f1] rows outside by blast
  have r2: "checkInfoPhrase wide price = Inr None"
    using checkInfoPhrase_projection [OF p2 f2] missing by blast
  show ?thesis using r1 r2 unfolding narrow_def wide_def both_def price_def by simp
qed

text \<open>
  C10. When the top result has no \<open>id\<close>, \<^verbatim>\<open>makeActionRecommendation\<close> and
  \<^verbatim>\<open>makeRecommendation\<close> return \<^verbatim>\<open>null\<close>; a recommendation that either of them
  produces carries the top result of the context, and that result has an \<open>id\<close>.
\<close>

theorem recommendation_needs_id:
  "(\<forall>topRow others. results c = topRow # others \<and> value topRow ''id'' = None \<longrightarrow>
       makeActionRecommendation c act = Inr None \<and> makeRecommendation g c name = Inr None)
   \<and> (\<forall>rec. makeActionRecommendation c act = Inr (Some rec) \<longrightarrow>
         (\<exists>others. results c = topResult rec # others) \<and> value (topResult rec) ''id'' \<noteq> None)
   \<and> (\<forall>rec. makeRecommendation g c name = Inr (Some rec) \<longrightarrow>
         (\<exists>others. results c = topResult rec # others) \<and> value (topResult rec) ''id'' \<noteq> None)"
  by (auto simp: makeActionRecommendation_def makeRecommendation_def
      split: list.splits option.splits if_splits)

theorem recommendation_needs_id_witness:
  "makeActionRecommendation
     (\<lparr> currentFunction = ''com.yelp:restaurant'', projection = None,
        results = [\<lparr> value = [''price_range'' \<mapsto> VString ''cheap''] \<rparr>],
        nextInfo = None, nextItem = None \<rparr> :: unit contextInfo)
     \<lparr> selector = ''com.yelp'', channel = ''book'', in_params = [(''restaurant'', VString ''R1'')] \<rparr>
   = Inr None
   \<and> makeRecommendation (\<lambda>item. \<lparr> selector = ''com.yelp'', channel = ''book'', in_params = [] \<rparr>)
     (\<lparr> currentFunction = ''com.yelp:restaurant'', projection = None,
        results = [\<lparr> value = [''price_range'' \<mapsto> VString ''cheap''] \<rparr>],
        nextInfo = None, nextItem = None \<rparr> :: unit contextInfo)
     (VString ''R1'')
   = Inr None"
  using recommendation_needs_id
    [of "\<lparr> currentFunction = ''com.yelp:restaurant'', projection = None,
        results = [\<lparr> value = [''price_range'' \<mapsto> VString ''cheap''] \<rparr>],
        nextInfo = None, nextItem = None \<rparr> :: unit contextInfo"
      "\<lparr> selector = ''com.yelp'', channel = ''book'', in_params = [(''restaurant'', VString ''R1'')] \<rparr>"
      "\<lambda>item. \<lparr> selector = ''com.yelp'', channel = ''book'', in_params = [] \<rparr>"
      "VString ''R1''"]
  by simp

subsection \<open>The dictionaries of filterToSlots and filterToNegatedSlots\<close>

lemma lastOn_SomeD: "lastOn fieldOf key clauses = Some clause \<Longrightarrow> clause \<in> set clauses \<and> fieldOf clause = Some key"
  by (induction clauses) (auto split: option.splits if_splits)

lemma lastOn_None_iff: "lastOn fieldOf key clauses = None \<longleftrightarrow> (\<forall>clause \<in> set clauses. fieldOf clause \<noteq> Some key)"
  by (induction clauses) (auto split: option.splits)

lemma positiveSlot_step:
  "positiveSlot operand s = (case clauseField operand of Some name \<Rightarrow> assignSlot name operand s | None \<Rightarrow> s)"
  by (cases operand) simp_all

lemma negatedSlot_step:
  "negatedSlot operand s = (case negatedField operand of Some name \<Rightarrow> assignSlot name operand s | None \<Rightarrow> s)"
proof (cases operand)
  case (NotB expr)
  then show ?thesis by (cases expr) simp_all
qed simp_all

text \<open>
  When no clause of the list is on the field \<open>__proto__\<close>, the dictionary is not
  reparented, its keys are distinct, and it holds under each key the last clause of the
  list on that field.
\<close>

lemma fold_assignSlot:
  assumes "\<forall>clause \<in> set clauses. fieldOf clause \<noteq> Some ''__proto__''"
    and "distinct (map fst own)"
  shows "\<exists>own'. fold (\<lambda>operand s. case fieldOf operand of Some name \<Rightarrow> assignSlot name operand s | None \<Rightarrow> s)
                  clauses (Slots own) = Slots own'
           \<and> distinct (map fst own')
           \<and> (\<forall>key. map_of own' key
                 = (case lastOn fieldOf key clauses of Some clause \<Rightarrow> Some clause | None \<Rightarrow> map_of own key))"
  using assms
proof (induction clauses arbitrary: own)
  case Nil
  then show ?case by simp
next
  case (Cons operand clauses)
  let ?step = "\<lambda>operand s. case fieldOf operand of Some name \<Rightarrow> assignSlot name operand s | None \<Rightarrow> s"
  have rest: "\<forall>clause \<in> set clauses. fieldOf clause \<noteq> Some ''__proto__''"
    using Cons.prems(1) by simp
  show ?case
  proof (cases "fieldOf operand")
    case None
    from Cons.IH [OF rest Cons.prems(2)] obtain own' where
      "fold ?step clauses (Slots own) = Slots own'" "distinct (map fst own')"
      "\<forall>key. map_of own' key
         = (case lastOn fieldOf key clauses of Some clause \<Rightarrow> Some clause | None \<Rightarrow> map_of own key)"
      by blast
    then show ?thesis using None by (auto split: option.splits)
  next
    case (Some name)
    then have name: "name \<noteq> ''__proto__''" using Cons.prems(1) by auto
    have d: "distinct (map fst (AList.update name operand own))"
      using Cons.prems(2) by (simp add: distinct_update)
    from Cons.IH [OF rest d] obtain own' where
      "fold ?step clauses (Slots (AList.update name operand own)) = Slots own'"
      "distinct (map fst own')"
      "\<forall>key. map_of own' key
         = (case lastOn fieldOf key clauses of Some clause \<Rightarrow> Some clause
            | None \<Rightarrow> map_of (AList.update name operand own) key)"
      by blast
    then show ?thesis
      using Some name by (auto simp: update_conv' split: option.splits)
  qed
qed

lemma filterToSlots_dictionary:
  assumes "\<forall>clause \<in> set (topOperands (opt f)). clauseField clause \<noteq> Some ''__proto__''"
  shows "\<exists>own. filterToSlots opt f = Slots own \<and> distinct (map fst own)
           \<and> (\<forall>key. map_of own key = lastOn clauseField key (topOperands (opt f)))"
proof -
  have step: "positiveSlot
      = (\<lambda>operand s. case clauseField operand of Some name \<Rightarrow> assignSlot name operand s | None \<Rightarrow> s)"
    by (intro ext) (rule positiveSlot_step)
  from fold_assignSlot [OF assms, of "[]"] obtain own where
    own: "filterToSlots opt f = Slots own" "distinct (map fst own)"
    and holds: "\<forall>key. map_of own key
        = (case lastOn clauseField key (topOperands (opt f)) of Some clause \<Rightarrow> Some clause
           | None \<Rightarrow> map_of [] key)"
    unfolding filterToSlots_def step by auto
  have "map_of own key = lastOn clauseField key (topOperands (opt f))" for key
    using holds by (cases "lastOn clauseField key (topOperands (opt f))") simp_all
  with own show ?thesis by blast
qed

lemma filterToNegatedSlots_dictionary:
  assumes "\<forall>clause \<in> set (topOperands (opt f)). negatedField clause \<noteq> Some ''__proto__''"
  shows "\<exists>own. filterToNegatedSlots opt f = Slots own \<and> distinct (map fst own)
           \<and> (\<forall>key. map_of own key = lastOn negatedField key (topOperands (opt f)))"
proof -
  have step: "negatedSlot
      = (\<lambda>operand s. case negatedField operand of Some name \<Rightarrow> assignSlot name operand s | None \<Rightarrow> s)"
    by (intro ext) (rule negatedSlot_step)
  from fold_assignSlot [OF assms, of "[]"] obtain own where
    own: "filterToNegatedSlots opt f = Slots own" "distinct (map fst own)"
    and holds: "\<forall>key. map_of own key
        = (case lastOn negatedField key (topOperands (opt f)) of Some clause \<Rightarrow> Some clause
           | None \<Rightarrow> map_of [] key)"
    unfolding filterToNegatedSlots_def step by auto
  have "map_of own key = lastOn negatedField key (topOperands (opt f))" for key
    using holds by (cases "lastOn negatedField key (topOperands (opt f))") simp_all
  with own show ?thesis by blast
qed

subsection \<open>refineFilterToAnswerQuestionOrChangeFilter\<close>

lemma two_members: "x \<in> set xs \<Longrightarrow> y \<in> set xs \<Longrightarrow> x \<noteq> y \<Longrightarrow> 2 \<le> length xs"
proof -
  assume "x \<in> set xs" "y \<in> set xs" "x \<noteq> y"
  then have "card {x, y} \<le> card (set xs)" by (intro card_mono) auto
  moreover have "card {x, y} = 2" using \<open>x \<noteq> y\<close> by simp
  moreover have "card (set xs) \<le> length xs" by (rule card_length)
  ultimately show ?thesis by linarith
qed

lemma getProperty_own: "map_of own key = Some clause \<Longrightarrow> getProperty own key = Some (Own clause)"
  by (simp add: getProperty_def)

lemma getProperty_None: "getProperty own key = None \<Longrightarrow> key \<notin> set objectPrototypeNames \<and> map_of own key = None"
  by (auto simp: getProperty_def split: option.splits if_splits)

lemma getProperty_plain:
  "key \<notin> set objectPrototypeNames \<Longrightarrow>
   getProperty own key = (case map_of own key of Some clause \<Rightarrow> Some (Own clause) | None \<Rightarrow> None)"
  by (simp add: getProperty_def)

text \<open>
  The loop returns \<^verbatim>\<open>null\<close> exactly when some key of the context is truthy in the
  dictionary of negated clauses, or is a key of the refinement with a \<open>DontCare\<close> or an
  equal clause in the context, or when a second key of the refinement is met.
\<close>

lemma changedParamLoop_null_iff:
  assumes "\<forall>(key, clause) \<in> set ctxSlots. isAtom clause \<or> isDontCare clause"
  shows "changedParamLoop ctxSlots refinedSlots negatedSlots changedParam = Inr None \<longleftrightarrow>
     (\<exists>(key, clause) \<in> set ctxSlots.
         getProperty negatedSlots key \<noteq> None
         \<or> (map_of refinedSlots key \<noteq> None
             \<and> (isDontCare clause \<or> map_of refinedSlots key = Some clause)))
     \<or> 2 \<le> length (filter (\<lambda>(key, clause). map_of refinedSlots key \<noteq> None) ctxSlots)
              + (if changedParam = None then 0 else 1)"
  using assms
proof (induction ctxSlots arbitrary: changedParam)
  case Nil
  then show ?case by simp
next
  case (Cons slot ctxSlots)
  obtain key clause where slot: "slot = (key, clause)" by (cases slot)
  have shape: "isAtom clause \<or> isDontCare clause" using Cons.prems unfolding slot by simp
  have rest: "\<forall>(key, clause) \<in> set ctxSlots. isAtom clause \<or> isDontCare clause"
    using Cons.prems by simp
  show ?case
  proof (cases "getProperty negatedSlots key \<noteq> None")
    case True
    then show ?thesis using shape unfolding slot by simp
  next
    case notNegated: False
    then have plain: "getProperty refinedSlots key
        = (case map_of refinedSlots key of Some c \<Rightarrow> Some (Own c) | None \<Rightarrow> None)"
      using getProperty_None [of negatedSlots key] getProperty_plain [of key refinedSlots] by simp
    show ?thesis
    proof (cases "map_of refinedSlots key")
      case None
      then show ?thesis
        using notNegated shape plain Cons.IH [OF rest, of changedParam] unfolding slot by simp
    next
      case (Some refinedSlot)
      show ?thesis
      proof (cases "isDontCare clause \<or> refinedSlot = clause")
        case True
        then show ?thesis using notNegated shape plain Some unfolding slot by auto
      next
        case different: False
        show ?thesis
        proof (cases changedParam)
          case None
          then show ?thesis
            using notNegated shape plain Some different Cons.IH [OF rest, of "Some key"]
            unfolding slot by auto
        next
          case (Some other)
          then show ?thesis
            using notNegated shape plain \<open>map_of refinedSlots key = Some refinedSlot\<close> different
            unfolding slot by auto
        qed
      qed
    qed
  qed
qed

lemma two_common_slots:
  assumes "distinct (map fst slots)"
    and "key \<noteq> key'"
    and "map_of slots key \<noteq> None" "P key"
    and "map_of slots key' \<noteq> None" "P key'"
  shows "2 \<le> length (filter (\<lambda>(key, clause). P key) slots)"
proof -
  let ?common = "filter (\<lambda>(key, clause). P key) slots"
  from assms obtain clause clause' where
    "map_of slots key = Some clause" "map_of slots key' = Some clause'"
    by auto
  then have "(key, clause) \<in> set ?common" "(key', clause') \<in> set ?common"
    using assms(4,6) by (auto dest: map_of_SomeD)
  then show ?thesis
    using \<open>key \<noteq> key'\<close> by (intro two_members [of "(key, clause)" _ "(key', clause')"]) auto
qed

text \<open>
  The four rejections, from the dictionaries: \<open>ctx\<close>, \<open>refined\<close> and \<open>negated\<close> are
  what the three dictionaries hold under each key.
\<close>

lemma answerQuestionOrChangeFilter_null:
  assumes ctx: "filterToSlots opt (opt old) = Slots ctxSlots" "distinct (map fst ctxSlots)"
      "\<forall>key. map_of ctxSlots key = lastOn clauseField key (slotClauses opt old)"
    and refined: "filterToSlots opt (opt new) = Slots refinedSlots"
      "\<forall>key. map_of refinedSlots key = lastOn clauseField key (slotClauses opt new)"
    and negated: "filterToNegatedSlots opt (opt new) = Slots negatedSlots"
      "\<forall>key. map_of negatedSlots key = lastOn negatedField key (slotClauses opt new)"
    and reject:
      "(\<exists>key. lastOn clauseField key (slotClauses opt old) \<noteq> None
              \<and> lastOn negatedField key (slotClauses opt new) \<noteq> None)
       \<or> (\<exists>key name. lastOn clauseField key (slotClauses opt old) = Some (DontCare name)
              \<and> lastOn clauseField key (slotClauses opt new) \<noteq> None)
       \<or> (\<exists>key clause. lastOn clauseField key (slotClauses opt old) = Some clause
              \<and> lastOn clauseField key (slotClauses opt new) = Some clause)
       \<or> (\<exists>key key'. key \<noteq> key'
              \<and> lastOn clauseField key (slotClauses opt old) \<noteq> None
              \<and> lastOn clauseField key (slotClauses opt new) \<noteq> None
              \<and> lastOn clauseField key' (slotClauses opt old) \<noteq> None
              \<and> lastOn clauseField key' (slotClauses opt new) \<noteq> None)"
  shows "refineFilterToAnswerQuestionOrChangeFilter opt reparented old new = Inr None"
proof -
  have "isAtom clause \<or> isDontCare clause" if "(key, clause) \<in> set ctxSlots" for key clause
  proof -
    have "map_of ctxSlots key = Some clause" using that ctx(2) by simp
    then have "clauseField clause = Some key" using ctx(3) lastOn_SomeD by metis
    then show ?thesis by (cases clause) simp_all
  qed
  then have shapes: "\<forall>(key, clause) \<in> set ctxSlots. isAtom clause \<or> isDontCare clause"
    by auto
  have member: "(key, clause) \<in> set ctxSlots"
    if "lastOn clauseField key (slotClauses opt old) = Some clause" for key clause
    using that ctx(3) by (metis map_of_SomeD)
  let ?bad = "\<exists>(key, clause) \<in> set ctxSlots.
         getProperty negatedSlots key \<noteq> None
         \<or> (map_of refinedSlots key \<noteq> None
             \<and> (isDontCare clause \<or> map_of refinedSlots key = Some clause))"
  let ?second = "2 \<le> length (filter (\<lambda>(key, clause). map_of refinedSlots key \<noteq> None) ctxSlots)"
  from reject consider
      (negated) key where "lastOn clauseField key (slotClauses opt old) \<noteq> None"
        "lastOn negatedField key (slotClauses opt new) \<noteq> None"
    | (dontcare) key name where "lastOn clauseField key (slotClauses opt old) = Some (DontCare name)"
        "lastOn clauseField key (slotClauses opt new) \<noteq> None"
    | (same) key clause where "lastOn clauseField key (slotClauses opt old) = Some clause"
        "lastOn clauseField key (slotClauses opt new) = Some clause"
    | (two) key key' where "key \<noteq> key'"
        "lastOn clauseField key (slotClauses opt old) \<noteq> None"
        "lastOn clauseField key (slotClauses opt new) \<noteq> None"
        "lastOn clauseField key' (slotClauses opt old) \<noteq> None"
        "lastOn clauseField key' (slotClauses opt new) \<noteq> None"
    by blast
  then have "?bad \<or> ?second"
  proof cases
    case negated
    from negated(1) obtain clause where "(key, clause) \<in> set ctxSlots" using member by auto
    moreover have "getProperty negatedSlots key \<noteq> None"
      using negated(2) assms(7) by (auto simp: getProperty_def)
    ultimately have ?bad by (intro bexI [of _ "(key, clause)"]) simp_all
    then show ?thesis ..
  next
    case dontcare
    from dontcare(1) have "(key, DontCare name) \<in> set ctxSlots" using member by auto
    moreover have "map_of refinedSlots key \<noteq> None" using dontcare(2) refined(2) by simp
    ultimately have ?bad by (intro bexI [of _ "(key, DontCare name)"]) simp_all
    then show ?thesis ..
  next
    case same
    from same(1) have "(key, clause) \<in> set ctxSlots" using member by auto
    moreover have "map_of refinedSlots key = Some clause" using same(2) refined(2) by simp
    ultimately have ?bad by (intro bexI [of _ "(key, clause)"]) simp_all
    then show ?thesis ..
  next
    case two
    have ?second
      using two ctx(3) refined(2)
      by (intro two_common_slots [OF ctx(2), of key key' "\<lambda>key. map_of refinedSlots key \<noteq> None"]) simp_all
    then show ?thesis ..
  qed
  then have loop: "changedParamLoop ctxSlots refinedSlots negatedSlots None = Inr None"
    unfolding changedParamLoop_null_iff [OF shapes] by simp
  show ?thesis
    using ctx(1) refined(1) negated(1) loop
    by (simp add: refineFilterToAnswerQuestionOrChangeFilter_def Let_def)
qed

text \<open>
  \<^verbatim>\<open>for ... in\<close> lists the keys that are array indices first and the other keys in
  insertion order. For the dictionaries of \<open>filterToSlots\<close> the loop never raises, and
  whether it returns \<^verbatim>\<open>null\<close> does not depend on the order of the keys, so the
  strategy's result does not either.
\<close>

lemma changedParamLoop_no_error:
  assumes "\<forall>(key, clause) \<in> set ctxSlots. isAtom clause \<or> isDontCare clause"
  shows "\<exists>r. changedParamLoop ctxSlots refinedSlots negatedSlots changedParam = Inr r"
  using assms
proof (induction ctxSlots arbitrary: changedParam)
  case Nil
  then show ?case by simp
next
  case (Cons slot ctxSlots)
  obtain key clause where slot: "slot = (key, clause)" by (cases slot)
  have shape: "isAtom clause \<or> isDontCare clause" using Cons.prems unfolding slot by simp
  have rest: "\<forall>(key, clause) \<in> set ctxSlots. isAtom clause \<or> isDontCare clause"
    using Cons.prems by simp
  show ?case
  proof (cases "getProperty negatedSlots key \<noteq> None")
    case True
    then show ?thesis using shape unfolding slot by simp
  next
    case False
    then have plain: "getProperty refinedSlots key
        = (case map_of refinedSlots key of Some c \<Rightarrow> Some (Own c) | None \<Rightarrow> None)"
      using getProperty_None [of negatedSlots key] getProperty_plain [of key refinedSlots] by simp
    show ?thesis
      using False shape plain Cons.IH [OF rest] unfolding slot
      by (cases "map_of refinedSlots key") auto
  qed
qed

lemma changedParamLoop_order:
  assumes "\<forall>(key, clause) \<in> set ctxSlots. isAtom clause \<or> isDontCare clause"
    and "distinct ctxSlots" "distinct reordered" "set reordered = set ctxSlots"
  shows "changedParamLoop reordered refinedSlots negatedSlots None = Inr None
         \<longleftrightarrow> changedParamLoop ctxSlots refinedSlots negatedSlots None = Inr None"
proof -
  let ?common = "\<lambda>(key, clause). map_of refinedSlots key \<noteq> (None :: booleanExpression option)"
  have "length (filter ?common reordered) = card (set (filter ?common reordered))"
    using assms(3) distinct_card [of "filter ?common reordered"] by (simp del: set_filter)
  also have "\<dots> = card (set (filter ?common ctxSlots))"
    using assms(4) by simp
  also have "\<dots> = length (filter ?common ctxSlots)"
    using assms(2) distinct_card [of "filter ?common ctxSlots"] by (simp del: set_filter)
  finally have count: "length (filter ?common reordered) = length (filter ?common ctxSlots)" .
  have shapes: "\<forall>(key, clause) \<in> set reordered. isAtom clause \<or> isDontCare clause"
    using assms(1,4) by simp
  show ?thesis
    unfolding changedParamLoop_null_iff [OF assms(1)] changedParamLoop_null_iff [OF shapes]
    using count assms(4) by simp
qed

text \<open>
  A field of the context whose name is a member of \<^verbatim>\<open>Object.prototype\<close> is rejected
  whatever the refinement is: the dictionary of negated clauses yields the inherited
  member for it.
\<close>

lemma inherited_name_rejected:
  "refineFilterToAnswerQuestionOrChangeFilter optimize (\<lambda>old new. Inl TypeError)
     (Atom ''toString'' ''=='' (VString ''a'')) (Atom ''price_range'' ''=='' (VString ''cheap''))
   = Inr None"
  by (simp add: refineFilterToAnswerQuestionOrChangeFilter_def filterToSlots_def
      filterToNegatedSlots_def topOperands_def getProperty_def objectPrototypeNames_def)

text \<open>
  C7, as stated, fails. The context predicate is \<open>not (cuisine == "italian")\<close> and the
  new predicate is \<open>not (cuisine == "chinese")\<close>: a field of the old predicate appears
  negated at top level in the new one, and the strategy accepts. The loop runs over the
  dictionary of the context, and a negated clause of the context is not in it.
\<close>

theorem answerQuestionOrChangeFilter_negated_counterexample:
  "''cuisine'' \<in> constrainedFields (NotB (Atom ''cuisine'' ''=='' (VString ''italian'')))
   \<and> NotB (Atom ''cuisine'' ''=='' (VString ''chinese''))
       \<in> set (slotClauses optimize (NotB (Atom ''cuisine'' ''=='' (VString ''chinese''))))
   \<and> negatedField (NotB (Atom ''cuisine'' ''=='' (VString ''chinese''))) = Some ''cuisine''
   \<and> refineFilterToAnswerQuestionOrChangeFilter optimize (\<lambda>old new. Inl TypeError)
         (NotB (Atom ''cuisine'' ''=='' (VString ''italian'')))
         (NotB (Atom ''cuisine'' ''=='' (VString ''chinese'')))
       = Inr (Some (And [NotB (Atom ''cuisine'' ''=='' (VString ''italian'')),
                         NotB (Atom ''cuisine'' ''=='' (VString ''chinese''))]))"
  by (simp add: refineFilterToAnswerQuestionOrChangeFilter_def slotClauses_def
      filterToSlots_def filterToNegatedSlots_def topOperands_def getProperty_def
      objectPrototypeNames_def)

text \<open>
  C7, amended. The clauses meant are the top-level clauses of the simplified predicates
  (\<open>slotClauses\<close>), none of them on a field named \<open>__proto__\<close>. The strategy rejects
    \<^item> when a field that has an \<open>Atom\<close> or \<open>DontCare\<close> clause at the top level of
      \<open>old\<close> has a negated \<open>Atom\<close> or \<open>DontCare\<close> clause at the top level of \<open>new\<close>;
    \<^item> when a field has such a clause at the top level of both, and the last one in
      \<open>old\<close> is a \<open>DontCare\<close>;
    \<^item> when the last such clause of a field is the same clause in \<open>old\<close> and in
      \<open>new\<close>;
    \<^item> when two different fields have such a clause at the top level of both.
\<close>

theorem answerQuestionOrChangeFilter_rejections:
  assumes "\<forall>clause \<in> set (slotClauses opt old). clauseField clause \<noteq> Some ''__proto__''"
    and "\<forall>clause \<in> set (slotClauses opt new). clauseField clause \<noteq> Some ''__proto__''"
    and "\<forall>clause \<in> set (slotClauses opt new). negatedField clause \<noteq> Some ''__proto__''"
  shows
    "((\<exists>key. (\<exists>clause \<in> set (slotClauses opt old). clauseField clause = Some key)
            \<and> (\<exists>clause \<in> set (slotClauses opt new). negatedField clause = Some key))
        \<longrightarrow> refineFilterToAnswerQuestionOrChangeFilter opt reparented old new = Inr None)
     \<and> ((\<exists>key name. lastOn clauseField key (slotClauses opt old) = Some (DontCare name)
            \<and> (\<exists>clause \<in> set (slotClauses opt new). clauseField clause = Some key))
        \<longrightarrow> refineFilterToAnswerQuestionOrChangeFilter opt reparented old new = Inr None)
     \<and> ((\<exists>key clause. lastOn clauseField key (slotClauses opt old) = Some clause
            \<and> lastOn clauseField key (slotClauses opt new) = Some clause)
        \<longrightarrow> refineFilterToAnswerQuestionOrChangeFilter opt reparented old new = Inr None)
     \<and> ((\<exists>key key'. key \<noteq> key'
            \<and> (\<exists>clause \<in> set (slotClauses opt old). clauseField clause = Some key)
            \<and> (\<exists>clause \<in> set (slotClauses opt new). clauseField clause = Some key)
            \<and> (\<exists>clause \<in> set (slotClauses opt old). clauseField clause = Some key')
            \<and> (\<exists>clause \<in> set (slotClauses opt new). clauseField clause = Some key'))
        \<longrightarrow> refineFilterToAnswerQuestionOrChangeFilter opt reparented old new = Inr None)"
proof -
  from filterToSlots_dictionary [of opt "opt old"] assms(1) obtain ctxSlots where
    ctx: "filterToSlots opt (opt old) = Slots ctxSlots" "distinct (map fst ctxSlots)"
      "\<forall>key. map_of ctxSlots key = lastOn clauseField key (slotClauses opt old)"
    unfolding slotClauses_def by blast
  from filterToSlots_dictionary [of opt "opt new"] assms(2) obtain refinedSlots where
    refined: "filterToSlots opt (opt new) = Slots refinedSlots"
      "\<forall>key. map_of refinedSlots key = lastOn clauseField key (slotClauses opt new)"
    unfolding slotClauses_def by blast
  from filterToNegatedSlots_dictionary [of opt "opt new"] assms(3) obtain negatedSlots where
    negated: "filterToNegatedSlots opt (opt new) = Slots negatedSlots"
      "\<forall>key. map_of negatedSlots key = lastOn negatedField key (slotClauses opt new)"
    unfolding slotClauses_def by blast
  have present: "(\<exists>clause \<in> set clauses. fieldOf clause = Some key) \<longleftrightarrow> lastOn fieldOf key clauses \<noteq> None"
    for fieldOf key and clauses :: "booleanExpression list"
    by (simp add: lastOn_None_iff)
  note null = answerQuestionOrChangeFilter_null [OF ctx refined negated, of reparented]
  show ?thesis
    unfolding present
  proof (intro conjI impI)
    assume "\<exists>key. lastOn clauseField key (slotClauses opt old) \<noteq> None
              \<and> lastOn negatedField key (slotClauses opt new) \<noteq> None"
    then show "refineFilterToAnswerQuestionOrChangeFilter opt reparented old new = Inr None"
      by (intro null disjI1)
  next
    assume "\<exists>key name. lastOn clauseField key (slotClauses opt old) = Some (DontCare name)
              \<and> lastOn clauseField key (slotClauses opt new) \<noteq> None"
    then show "refineFilterToAnswerQuestionOrChangeFilter opt reparented old new = Inr None"
      by (intro null disjI2 disjI1)
  next
    assume "\<exists>key clause. lastOn clauseField key (slotClauses opt old) = Some clause
              \<and> lastOn clauseField key (slotClauses opt new) = Some clause"
    then show "refineFilterToAnswerQuestionOrChangeFilter opt reparented old new = Inr None"
      by (intro null disjI2 disjI1)
  next
    assume "\<exists>key key'. key \<noteq> key'
              \<and> lastOn clauseField key (slotClauses opt old) \<noteq> None
              \<and> lastOn clauseField key (slotClauses opt new) \<noteq> None
              \<and> lastOn clauseField key' (slotClauses opt old) \<noteq> None
              \<and> lastOn clauseField key' (slotClauses opt new) \<noteq> None"
    then show "refineFilterToAnswerQuestionOrChangeFilter opt reparented old new = Inr None"
      by (intro null disjI2)
  qed
qed

theorem answerQuestionOrChangeFilter_rejections_witness:
  "refineFilterToAnswerQuestionOrChangeFilter optimize (\<lambda>old new. Inl TypeError)
     (Atom ''cuisine'' ''=='' (VString ''italian''))
     (NotB (Atom ''cuisine'' ''=='' (VString ''chinese''))) = Inr None
   \<and> refineFilterToAnswerQuestionOrChangeFilter optimize (\<lambda>old new. Inl TypeError)
     (And [DontCare ''price_range'', Atom ''cuisine'' ''=='' (VString ''italian'')])
     (Atom ''price_range'' ''=='' (VString ''cheap'')) = Inr None
   \<and> refineFilterToAnswerQuestionOrChangeFilter optimize (\<lambda>old new. Inl TypeError)
     (And [Atom ''cuisine'' ''=='' (VString ''thai''), Atom ''cuisine'' ''=='' (VString ''italian'')])
     (Atom ''cuisine'' ''=='' (VString ''italian'')) = Inr None
   \<and> refineFilterToAnswerQuestionOrChangeFilter optimize (\<lambda>old new. Inl TypeError)
     (And [Atom ''cuisine'' ''=='' (VString ''italian''), Atom ''price_range'' ''=='' (VString ''cheap'')])
     (And [Atom ''cuisine'' ''=='' (VString ''thai''), Atom ''price_range'' ''=='' (VString ''moderate'')])
     = Inr None"
proof -
  define raise :: "booleanExpression \<Rightarrow> booleanExpression \<Rightarrow> error + booleanExpression option"
    where "raise = (\<lambda>old new. Inl TypeError)"
  define cuisine where "cuisine = ''cuisine''"
  define price where "price = ''price_range''"
  define italian where "italian = Atom ''cuisine'' ''=='' (VString ''italian'')"
  define notChinese where "notChinese = NotB (Atom ''cuisine'' ''=='' (VString ''chinese''))"
  define anyPrice where "anyPrice = And [DontCare ''price_range'', Atom ''cuisine'' ''=='' (VString ''italian'')]"
  define cheap where "cheap = Atom ''price_range'' ''=='' (VString ''cheap'')"
  define twice where "twice = And [Atom ''cuisine'' ''=='' (VString ''thai''),
      Atom ''cuisine'' ''=='' (VString ''italian'')]"
  define both where "both = And [Atom ''cuisine'' ''=='' (VString ''italian''),
      Atom ''price_range'' ''=='' (VString ''cheap'')]"
  define others where "others = And [Atom ''cuisine'' ''=='' (VString ''thai''),
      Atom ''price_range'' ''=='' (VString ''moderate'')]"
  note defs = italian_def notChinese_def anyPrice_def cheap_def twice_def both_def others_def
    cuisine_def price_def slotClauses_def topOperands_def
  have plain:
    "\<forall>clause \<in> set (slotClauses optimize italian). clauseField clause \<noteq> Some ''__proto__''"
    "\<forall>clause \<in> set (slotClauses optimize italian). negatedField clause \<noteq> Some ''__proto__''"
    "\<forall>clause \<in> set (slotClauses optimize notChinese). clauseField clause \<noteq> Some ''__proto__''"
    "\<forall>clause \<in> set (slotClauses optimize notChinese). negatedField clause \<noteq> Some ''__proto__''"
    "\<forall>clause \<in> set (slotClauses optimize anyPrice). clauseField clause \<noteq> Some ''__proto__''"
    "\<forall>clause \<in> set (slotClauses optimize cheap). clauseField clause \<noteq> Some ''__proto__''"
    "\<forall>clause \<in> set (slotClauses optimize cheap). negatedField clause \<noteq> Some ''__proto__''"
    "\<forall>clause \<in> set (slotClauses optimize twice). clauseField clause \<noteq> Some ''__proto__''"
    "\<forall>clause \<in> set (slotClauses optimize both). clauseField clause \<noteq> Some ''__proto__''"
    "\<forall>clause \<in> set (slotClauses optimize others). clauseField clause \<noteq> Some ''__proto__''"
    "\<forall>clause \<in> set (slotClauses optimize others). negatedField clause \<noteq> Some ''__proto__''"
    by (simp_all add: defs)
  have negated: "(\<exists>clause \<in> set (slotClauses optimize italian). clauseField clause = Some cuisine)
      \<and> (\<exists>clause \<in> set (slotClauses optimize notChinese). negatedField clause = Some cuisine)"
    by (simp add: defs)
  have dontcare: "lastOn clauseField price (slotClauses optimize anyPrice) = Some (DontCare price)
      \<and> (\<exists>clause \<in> set (slotClauses optimize cheap). clauseField clause = Some price)"
    by (simp add: defs)
  have same: "lastOn clauseField cuisine (slotClauses optimize twice) = Some italian
      \<and> lastOn clauseField cuisine (slotClauses optimize italian) = Some italian"
    by (simp add: defs)
  have two: "cuisine \<noteq> price
      \<and> (\<exists>clause \<in> set (slotClauses optimize both). clauseField clause = Some cuisine)
      \<and> (\<exists>clause \<in> set (slotClauses optimize others). clauseField clause = Some cuisine)
      \<and> (\<exists>clause \<in> set (slotClauses optimize both). clauseField clause = Some price)
      \<and> (\<exists>clause \<in> set (slotClauses optimize others). clauseField clause = Some price)"
    by (simp add: defs)
  have r1: "refineFilterToAnswerQuestionOrChangeFilter optimize raise italian notChinese = Inr None"
    using negated answerQuestionOrChangeFilter_rejections [OF plain(1) plain(3) plain(4), of raise]
    by blast
  have r2: "refineFilterToAnswerQuestionOrChangeFilter optimize raise anyPrice cheap = Inr None"
    using dontcare answerQuestionOrChangeFilter_rejections [OF plain(5) plain(6) plain(7), of raise]
    by blast
  have r3: "refineFilterToAnswerQuestionOrChangeFilter optimize raise twice italian = Inr None"
    using same answerQuestionOrChangeFilter_rejections [OF plain(8) plain(1) plain(2), of raise]
    by blast
  have r4: "refineFilterToAnswerQuestionOrChangeFilter optimize raise both others = Inr None"
    using two answerQuestionOrChangeFilter_rejections [OF plain(9) plain(10) plain(11), of raise]
    by blast
  show ?thesis
    using r1 r2 r3 r4
    unfolding raise_def italian_def notChinese_def anyPrice_def cheap_def twice_def both_def others_def
    by simp
qed

end
